theory Spec2Isabelle
  imports Main
begin

text \<open>
  A model of the provisioning and build scripts \<^verbatim>\<open>build_apk.py\<close> and
  \<^verbatim>\<open>finsight_runner.py\<close>: the command runner, the toolchain steps, the step pipeline,
  the build with its fallback, and the device operations. Each method is a function from
  the state of the run to a result and a new state; a raised exception is the result
  \<open>Inl\<close>.
\<close>

section \<open>Text\<close>

text \<open>
  Python text is modelled as \<^typ>\<open>string\<close>: a list of characters, each a code point
  below 256. The commands, paths and messages of the two scripts are ASCII.
\<close>

definition nl :: char where
  "nl = CHR 0x0A"

definition sq :: char where
  "sq = CHR 0x27"

definition dq :: char where
  "dq = CHR 0x22"

text \<open>\<^verbatim>\<open>str.isspace\<close> on one character (code points below 256).\<close>

definition isspace :: "char \<Rightarrow> bool" where
  "isspace c = (let n = (of_char c :: nat) in
     (9 \<le> n \<and> n \<le> 13) \<or> (28 \<le> n \<and> n \<le> 32) \<or> n = 133 \<or> n = 160)"

text \<open>\<^verbatim>\<open>str.lower\<close> (code points below 256).\<close>

definition lower_char :: "char \<Rightarrow> char" where
  "lower_char c = (let n = (of_char c :: nat) in
     if (65 \<le> n \<and> n \<le> 90) \<or> (192 \<le> n \<and> n \<le> 222 \<and> n \<noteq> 215)
     then char_of (n + 32) else c)"

definition lower :: "string \<Rightarrow> string" where
  "lower s = map lower_char s"

text \<open>\<^verbatim>\<open>s.startswith(p)\<close> and the substring test \<^verbatim>\<open>p in s\<close>.\<close>

fun startswith :: "string \<Rightarrow> string \<Rightarrow> bool" where
  "startswith s [] = True"
| "startswith [] (p # ps) = False"
| "startswith (c # cs) (p # ps) = (c = p \<and> startswith cs ps)"

fun is_in :: "string \<Rightarrow> string \<Rightarrow> bool" where
  "is_in p [] = (p = [])"
| "is_in p (c # cs) = (startswith (c # cs) p \<or> is_in p cs)"

text \<open>\<^verbatim>\<open>s.strip()\<close> and \<^verbatim>\<open>s.split(d)\<close> for a one-character separator.\<close>

definition lstrip :: "string \<Rightarrow> string" where
  "lstrip s = dropWhile isspace s"

definition rstrip :: "string \<Rightarrow> string" where
  "rstrip s = rev (dropWhile isspace (rev s))"

definition strip :: "string \<Rightarrow> string" where
  "strip s = rstrip (lstrip s)"

fun split_on :: "char \<Rightarrow> string \<Rightarrow> string list" where
  "split_on d [] = [[]]"
| "split_on d (c # cs) =
     (if c = d then [] # split_on d cs
      else (case split_on d cs of
              [] \<Rightarrow> [[c]]
            | x # xs \<Rightarrow> (c # x) # xs))"

text \<open>\<^verbatim>\<open>sep.join(xs)\<close>.\<close>

fun join :: "string \<Rightarrow> string list \<Rightarrow> string" where
  "join sep [] = []"
| "join sep [x] = x"
| "join sep (x # y # ys) = x @ sep @ join sep (y # ys)"

text \<open>Decimal numerals, as \<^verbatim>\<open>%d\<close> and \<^verbatim>\<open>str(n)\<close> print them.\<close>

definition digit :: "nat \<Rightarrow> char" where
  "digit n = ''0123456789'' ! n"

fun show_nat :: "nat \<Rightarrow> string" where
  "show_nat n = (if n < 10 then [digit n] else show_nat (n div 10) @ [digit (n mod 10)])"

declare show_nat.simps [simp del]

definition show_int :: "int \<Rightarrow> string" where
  "show_int i = (if i < 0 then CHR ''-'' # show_nat (nat (- i)) else show_nat (nat i))"

section \<open>The operating system\<close>

text \<open>
  What a child process does, what the file system holds and what Python's library
  prints are not in the scripts. They are parameters of the model: a record of
  functions over a world \<^typ>\<open>'w\<close> that nothing is assumed about.

  \<^item> \<open>os_run cmd capture w\<close>: \<^verbatim>\<open>subprocess.run(cmd, shell=True, env=self.env, ...)\<close>
    before the \<^verbatim>\<open>check\<close> test: the child's return code with what it wrote to stdout
    and stderr, or an exception other than \<^verbatim>\<open>CalledProcessError\<close> (the shell cannot
    be started, the output is not decodable, the user interrupts the wait).
  \<^item> \<open>os_exists\<close>, \<open>os_rmtree\<close>, \<open>os_mkdir\<close>, \<open>os_st_size\<close>: \<^verbatim>\<open>Path.exists\<close>,
    \<^verbatim>\<open>shutil.rmtree\<close>, \<^verbatim>\<open>Path.mkdir(parents=True, exist_ok=True)\<close>, \<^verbatim>\<open>Path.stat().st_size\<close>;
    \<open>Some m\<close> and \<open>Inl m\<close> are an \<^verbatim>\<open>OSError\<close> with message \<open>m\<close>.
  \<^item> \<open>py_fmt_mb n\<close>: the text of \<^verbatim>\<open>f"{n / (1024 * 1024):.1f}"\<close>, a floating-point format.
  \<^item> \<open>py_signal_repr n\<close>: \<^verbatim>\<open>repr(signal.Signals(n))\<close>, or \<open>None\<close> where that raises
    \<^verbatim>\<open>ValueError\<close>; the table of signals belongs to the platform.
\<close>

text \<open>
  A raised exception: \<open>Exn m\<close> is an instance of Python's \<^verbatim>\<open>Exception\<close> with
  \<^verbatim>\<open>str\<close> \<open>m\<close>; \<open>BaseExn c\<close> is an instance of the class \<open>c\<close>, a subclass of
  \<^verbatim>\<open>BaseException\<close> outside \<^verbatim>\<open>Exception\<close> (\<^verbatim>\<open>KeyboardInterrupt\<close>,
  \<^verbatim>\<open>SystemExit\<close>), which a handler \<^verbatim>\<open>except Exception\<close> lets through. The
  scripts can meet the second kind where they wait for a child process, so it is among
  the outcomes of \<open>os_run\<close>; a failing file-system call raises an \<^verbatim>\<open>OSError\<close>, given
  by its message.
\<close>

datatype exn = Exn string | BaseExn string

datatype proc = Exited int string string | Raised exn

record 'w os =
  os_run :: "string \<Rightarrow> bool \<Rightarrow> 'w \<Rightarrow> proc \<times> 'w"
  os_exists :: "string \<Rightarrow> 'w \<Rightarrow> bool"
  os_rmtree :: "string \<Rightarrow> 'w \<Rightarrow> string option \<times> 'w"
  os_mkdir :: "string \<Rightarrow> 'w \<Rightarrow> string option \<times> 'w"
  os_st_size :: "string \<Rightarrow> 'w \<Rightarrow> string + nat"
  py_fmt_mb :: "nat \<Rightarrow> string"
  py_signal_repr :: "nat \<Rightarrow> string option"

text \<open>
  The state of a run: the world, the actions taken on it in order, and the status lines
  printed (\<^verbatim>\<open>print_success\<close>, \<^verbatim>\<open>print_warning\<close>, \<^verbatim>\<open>print_error\<close>, each with its
  message). Headings, hints and bare \<^verbatim>\<open>print\<close> calls are decoration and are left out.
\<close>

datatype event = Spawn string bool | Rmtree string | Mkdir string

datatype line = Success string | Warning string | Error string

record 'w st =
  world :: 'w
  trace :: "event list"
  console :: "line list"

type_synonym ('a, 'w) prog = "'w st \<Rightarrow> (exn + 'a) \<times> 'w st"

definition print_success :: "string \<Rightarrow> 'w st \<Rightarrow> 'w st" where
  "print_success m s = s\<lparr>console := console s @ [Success m]\<rparr>"

definition print_warning :: "string \<Rightarrow> 'w st \<Rightarrow> 'w st" where
  "print_warning m s = s\<lparr>console := console s @ [Warning m]\<rparr>"

definition print_error :: "string \<Rightarrow> 'w st \<Rightarrow> 'w st" where
  "print_error m s = s\<lparr>console := console s @ [Error m]\<rparr>"

section \<open>run_command\<close>

text \<open>
  \<^verbatim>\<open>str(e)\<close> for \<^verbatim>\<open>e = CalledProcessError(returncode, cmd)\<close>, from Python's
  \<^verbatim>\<open>subprocess\<close> module.
\<close>

definition called_process_error_str :: "'w os \<Rightarrow> string \<Rightarrow> int \<Rightarrow> string" where
  "called_process_error_str os cmd rc =
     (if rc < 0 then
        (case py_signal_repr os (nat (- rc)) of
           Some r \<Rightarrow> ''Command '' @ [sq] @ cmd @ [sq] @ '' died with '' @ r @ ''.''
         | None \<Rightarrow> ''Command '' @ [sq] @ cmd @ [sq] @ '' died with unknown signal ''
                     @ show_nat (nat (- rc)) @ ''.'')
      else ''Command '' @ [sq] @ cmd @ [sq] @ '' returned non-zero exit status ''
             @ show_int rc @ ''.'')"

text \<open>
  \<^verbatim>\<open>run_command(cmd, shell=True, check=True, env=None, capture_output=False)\<close>, the same in
  both scripts. Every caller passes \<^verbatim>\<open>shell=True\<close> and \<^verbatim>\<open>env=self.env\<close>. With
  \<^verbatim>\<open>check\<close> set, a non-zero return code raises \<^verbatim>\<open>CalledProcessError\<close> inside
  \<^verbatim>\<open>subprocess.run\<close>, and the handler returns \<^verbatim>\<open>False, "", str(e)\<close>.
\<close>

definition run_command ::
  "'w os \<Rightarrow> string \<Rightarrow> bool \<Rightarrow> bool \<Rightarrow> (bool \<times> string \<times> string, 'w) prog" where
  "run_command os cmd check capture_output s =
     (case os_run os cmd capture_output (world s) of
        (p, w') \<Rightarrow>
          (let s' = s\<lparr>world := w', trace := trace s @ [Spawn cmd capture_output]\<rparr> in
           case p of
             Raised e \<Rightarrow> (Inl e, s')
           | Exited rc out err \<Rightarrow>
               if check \<and> rc \<noteq> 0
               then (Inr (False, [], called_process_error_str os cmd rc), s')
               else if capture_output then (Inr (rc = 0, out, err), s')
               else (Inr (rc = 0, [], []), s')))"

section \<open>The two scripts\<close>

text \<open>
  \<^verbatim>\<open>build_apk.py\<close> (class \<^verbatim>\<open>FlutterAPKBuilder\<close>) and \<^verbatim>\<open>finsight_runner.py\<close> (class
  \<^verbatim>\<open>FinSightRunner\<close>) share their toolchain methods up to a few flags and messages.
  One definition models both, with the script as its first argument.
\<close>

datatype script = Builder | Runner

definition project_dir :: string where
  "project_dir = ''/workspaces/FinSight-Automated-Expense-Recognition''"

definition flutter_dir :: string where
  "flutter_dir = ''/tmp/flutter''"

definition android_sdk_dir :: string where
  "android_sdk_dir = ''/tmp/android-sdk''"

definition java_home :: string where
  "java_home = ''/usr/lib/jvm/java-17-openjdk-amd64''"

text \<open>\<^verbatim>\<open>Path / name\<close>.\<close>

definition pjoin :: "string \<Rightarrow> string \<Rightarrow> string" where
  "pjoin p n = p @ ''/'' @ n"

definition cmdline_tools :: string where
  "cmdline_tools = pjoin (pjoin android_sdk_dir ''cmdline-tools'') ''latest''"

definition sdkmanager :: string where
  "sdkmanager = pjoin (pjoin cmdline_tools ''bin'') ''sdkmanager''"

definition flutter_bin :: string where
  "flutter_bin = pjoin (pjoin flutter_dir ''bin'') ''flutter''"

definition adb :: string where
  "adb = pjoin (pjoin android_sdk_dir ''platform-tools'') ''adb''"

subsection \<open>File-system actions\<close>

definition rmtree :: "'w os \<Rightarrow> string \<Rightarrow> bool \<Rightarrow> (unit, 'w) prog" where
  "rmtree os path ignore_errors s =
     (case os_rmtree os path (world s) of
        (r, w') \<Rightarrow>
          (let s' = s\<lparr>world := w', trace := trace s @ [Rmtree path]\<rparr> in
           case r of
             None \<Rightarrow> (Inr (), s')
           | Some m \<Rightarrow> if ignore_errors then (Inr (), s') else (Inl (Exn m), s')))"

definition mkdir :: "'w os \<Rightarrow> string \<Rightarrow> (unit, 'w) prog" where
  "mkdir os path s =
     (case os_mkdir os path (world s) of
        (r, w') \<Rightarrow>
          (let s' = s\<lparr>world := w', trace := trace s @ [Mkdir path]\<rparr> in
           case r of
             None \<Rightarrow> (Inr (), s')
           | Some m \<Rightarrow> (Inl (Exn m), s')))"

subsection \<open>check_java\<close>

definition apt_cmd :: string where
  "apt_cmd = ''apt-get update && apt-get install -y openjdk-17-jdk''"

definition java_version_cmd :: string where
  "java_version_cmd = ''java -version''"

text \<open>
  \<^verbatim>\<open>stdout.split()[0]\<close>: the first whitespace-separated word; \<^verbatim>\<open>IndexError\<close> when there
  is none.
\<close>

definition first_word :: "string \<Rightarrow> exn + string" where
  "first_word s =
     (case dropWhile isspace s of
        [] \<Rightarrow> Inl (Exn ''list index out of range'')
      | c # cs \<Rightarrow> Inr (takeWhile (\<lambda>x. \<not> isspace x) (c # cs)))"

definition java_installed_msg :: "script \<Rightarrow> string \<Rightarrow> exn + string" where
  "java_installed_msg sc stdout =
     (case sc of
        Builder \<Rightarrow>
          (if stdout \<noteq> [] then
             (case first_word stdout of
                Inl e \<Rightarrow> Inl e
              | Inr w \<Rightarrow> Inr (''Java is installed: '' @ w))
           else Inr ''Java is installed: Java 17'')
      | Runner \<Rightarrow> Inr ''Java is installed'')"

text \<open>The part of \<^verbatim>\<open>check_java\<close> after the installation block.\<close>

definition check_java_verify :: "script \<Rightarrow> 'w os \<Rightarrow> (bool, 'w) prog" where
  "check_java_verify sc os s =
     (case run_command os java_version_cmd True True s of
        (Inl e, s1) \<Rightarrow> (Inl e, s1)
      | (Inr (success, stdout, err), s1) \<Rightarrow>
          if success then
            (case java_installed_msg sc stdout of
               Inl e \<Rightarrow> (Inl e, s1)
             | Inr m \<Rightarrow> (Inr success, print_success m s1))
          else (Inr success, s1))"

definition check_java :: "script \<Rightarrow> 'w os \<Rightarrow> (bool, 'w) prog" where
  "check_java sc os s =
     (if \<not> os_exists os java_home (world s) then
        (case run_command os apt_cmd True False
                (print_warning ''Java 17 not found, installing...'' s) of
           (Inl e, s1) \<Rightarrow> (Inl e, s1)
         | (Inr (success, out, err), s1) \<Rightarrow>
             if \<not> success then (Inr False, print_error ''Failed to install Java 17'' s1)
             else check_java_verify sc os s1)
      else check_java_verify sc os s)"

subsection \<open>setup_flutter\<close>

definition flutter_version_cmd :: string where
  "flutter_version_cmd = flutter_dir @ ''/bin/flutter --version''"

definition flutter_clone_cmd :: string where
  "flutter_clone_cmd =
     ''git clone https://github.com/flutter/flutter.git -b stable --depth 1 '' @ flutter_dir"

definition flutter_no_analytics_cmd :: string where
  "flutter_no_analytics_cmd = flutter_dir @ ''/bin/flutter config --no-analytics''"

definition flutter_precache_cmd :: "script \<Rightarrow> string" where
  "flutter_precache_cmd sc =
     (case sc of
        Builder \<Rightarrow> flutter_dir @ ''/bin/flutter precache''
      | Runner \<Rightarrow> flutter_dir @ ''/bin/flutter precache --android'')"

definition flutter_working_msg :: "script \<Rightarrow> string" where
  "flutter_working_msg sc =
     (case sc of Builder \<Rightarrow> ''Flutter is working'' | Runner \<Rightarrow> ''Flutter is working correctly'')"

definition flutter_not_found_msg :: "script \<Rightarrow> string" where
  "flutter_not_found_msg sc =
     (case sc of
        Builder \<Rightarrow> ''Flutter not found, installing...''
      | Runner \<Rightarrow> ''Flutter not found, installing (this may take a few minutes)...'')"

definition flutter_clone_failed_msg :: "script \<Rightarrow> string" where
  "flutter_clone_failed_msg sc =
     (case sc of
        Builder \<Rightarrow> ''Failed to clone Flutter''
      | Runner \<Rightarrow> ''Failed to clone Flutter repository'')"

definition flutter_installed_msg :: "script \<Rightarrow> string" where
  "flutter_installed_msg sc =
     (case sc of
        Builder \<Rightarrow> ''Flutter installed successfully''
      | Runner \<Rightarrow> ''Flutter SDK installed successfully'')"

text \<open>
  The part of \<^verbatim>\<open>setup_flutter\<close> after the \<^verbatim>\<open>if self.flutter_dir.exists()\<close> block: the
  clone and the first-run configuration, whose two results are dropped.
\<close>

definition setup_flutter_install :: "script \<Rightarrow> 'w os \<Rightarrow> (bool, 'w) prog" where
  "setup_flutter_install sc os s =
     (case run_command os flutter_clone_cmd True False
             (print_warning (flutter_not_found_msg sc) s) of
        (Inl e, s1) \<Rightarrow> (Inl e, s1)
      | (Inr (success, out, err), s1) \<Rightarrow>
          if \<not> success then (Inr False, print_error (flutter_clone_failed_msg sc) s1)
          else
            (case run_command os flutter_no_analytics_cmd True False
                    (print_success (flutter_installed_msg sc) s1) of
               (Inl e, s2) \<Rightarrow> (Inl e, s2)
             | (Inr r2, s2) \<Rightarrow>
                 (case run_command os (flutter_precache_cmd sc) True False s2 of
                    (Inl e, s3) \<Rightarrow> (Inl e, s3)
                  | (Inr r3, s3) \<Rightarrow> (Inr True, s3))))"

definition setup_flutter :: "script \<Rightarrow> 'w os \<Rightarrow> (bool, 'w) prog" where
  "setup_flutter sc os s =
     (if os_exists os flutter_dir (world s) then
        (case run_command os flutter_version_cmd True True
                (print_success ''Flutter directory exists'' s) of
           (Inl e, s1) \<Rightarrow> (Inl e, s1)
         | (Inr (success, out, err), s1) \<Rightarrow>
             if success then (Inr True, print_success (flutter_working_msg sc) s1)
             else
               (case rmtree os flutter_dir False
                       (print_warning
                          ''Flutter directory exists but not working, reinstalling...'' s1) of
                  (Inl e, s2) \<Rightarrow> (Inl e, s2)
                | (Inr u, s2) \<Rightarrow> setup_flutter_install sc os s2))
      else setup_flutter_install sc os s)"

subsection \<open>setup_android_sdk\<close>

definition sdkmanager_version_cmd :: string where
  "sdkmanager_version_cmd = cmdline_tools @ ''/bin/sdkmanager --version''"

definition sdk_url :: string where
  "sdk_url =
     ''https://dl.google.com/android/repository/commandlinetools-linux-11076708_latest.zip''"

definition sdk_zip :: string where
  "sdk_zip = ''/tmp/commandlinetools.zip''"

definition wget_cmd :: "script \<Rightarrow> string" where
  "wget_cmd sc =
     (case sc of
        Builder \<Rightarrow> ''wget -O '' @ sdk_zip @ '' '' @ sdk_url
      | Runner \<Rightarrow> ''wget -q -O '' @ sdk_zip @ '' '' @ sdk_url)"

definition unzip_cmd :: string where
  "unzip_cmd =
     ''unzip -q '' @ sdk_zip @ '' -d /tmp/cmdline-tools-tmp && ''
     @ ''mv /tmp/cmdline-tools-tmp/cmdline-tools/* '' @ cmdline_tools @ ''/ && ''
     @ ''rm -rf /tmp/cmdline-tools-tmp '' @ sdk_zip"

text \<open>
  The part of \<^verbatim>\<open>setup_android_sdk\<close> after the \<^verbatim>\<open>if cmdline_tools.exists()\<close> block:
  download, \<^verbatim>\<open>mkdir\<close>, extract.
\<close>

definition setup_android_sdk_install :: "script \<Rightarrow> 'w os \<Rightarrow> (bool, 'w) prog" where
  "setup_android_sdk_install sc os s =
     (case run_command os (wget_cmd sc) True False
             (print_warning ''Android SDK not found, installing...'' s) of
        (Inl e, s1) \<Rightarrow> (Inl e, s1)
      | (Inr (success, out, err), s1) \<Rightarrow>
          if \<not> success then (Inr False, print_error ''Failed to download Android SDK'' s1)
          else
            (case mkdir os cmdline_tools s1 of
               (Inl e, s2) \<Rightarrow> (Inl e, s2)
             | (Inr u, s2) \<Rightarrow>
                 (case run_command os unzip_cmd True False s2 of
                    (Inl e, s3) \<Rightarrow> (Inl e, s3)
                  | (Inr (success3, out3, err3), s3) \<Rightarrow>
                      if \<not> success3
                      then (Inr False, print_error ''Failed to extract Android SDK'' s3)
                      else (Inr True,
                            print_success ''Android SDK command line tools installed'' s3))))"

definition setup_android_sdk :: "script \<Rightarrow> 'w os \<Rightarrow> (bool, 'w) prog" where
  "setup_android_sdk sc os s =
     (if os_exists os cmdline_tools (world s) then
        (case run_command os sdkmanager_version_cmd True True
                (print_success ''Android SDK command line tools exist'' s) of
           (Inl e, s1) \<Rightarrow> (Inl e, s1)
         | (Inr (success, out, err), s1) \<Rightarrow>
             if success then (Inr True, print_success ''Android SDK tools are working'' s1)
             else
               (case rmtree os android_sdk_dir True
                       (print_warning ''SDK tools exist but not working, reinstalling...'' s1) of
                  (Inl e, s2) \<Rightarrow> (Inl e, s2)
                | (Inr u, s2) \<Rightarrow> setup_android_sdk_install sc os s2))
      else setup_android_sdk_install sc os s)"

subsection \<open>install_sdk_components\<close>

definition license_cmd :: string where
  "license_cmd = ''yes | '' @ sdkmanager @ '' --licenses''"

definition components :: "string list" where
  "components = [''platform-tools'', ''platforms;android-34'', ''build-tools;34.0.0'']"

definition quoted_components :: string where
  "quoted_components = join '' '' (map (\<lambda>comp. [dq] @ comp @ [dq]) components)"

definition install_cmd :: string where
  "install_cmd = sdkmanager @ '' '' @ quoted_components"

definition components_installed_msg :: "script \<Rightarrow> string" where
  "components_installed_msg sc =
     (case sc of
        Builder \<Rightarrow> ''Android SDK components installed''
      | Runner \<Rightarrow> ''Android SDK components installed successfully'')"

definition install_sdk_components :: "script \<Rightarrow> 'w os \<Rightarrow> (bool, 'w) prog" where
  "install_sdk_components sc os s =
     (case run_command os license_cmd True False s of
        (Inl e, s1) \<Rightarrow> (Inl e, s1)
      | (Inr r1, s1) \<Rightarrow>
          (case run_command os install_cmd True False s1 of
             (Inl e, s2) \<Rightarrow> (Inl e, s2)
           | (Inr (success, out, err), s2) \<Rightarrow>
               if success then (Inr success, print_success (components_installed_msg sc) s2)
               else (Inr success, print_error ''Failed to install some SDK components'' s2)))"

subsection \<open>configure_flutter_sdk, get_flutter_dependencies, clean_build\<close>

definition config_sdk_cmd :: string where
  "config_sdk_cmd = flutter_bin @ '' config --android-sdk '' @ android_sdk_dir"

definition flutter_configured_msg :: "script \<Rightarrow> string" where
  "flutter_configured_msg sc =
     (case sc of
        Builder \<Rightarrow> ''Flutter configured''
      | Runner \<Rightarrow> ''Flutter configured with Android SDK'')"

definition configure_flutter_sdk :: "script \<Rightarrow> 'w os \<Rightarrow> (bool, 'w) prog" where
  "configure_flutter_sdk sc os s =
     (case run_command os config_sdk_cmd True False s of
        (Inl e, s1) \<Rightarrow> (Inl e, s1)
      | (Inr (success, out, err), s1) \<Rightarrow>
          if success then (Inr success, print_success (flutter_configured_msg sc) s1)
          else (Inr success, s1))"

definition pub_get_cmd :: string where
  "pub_get_cmd = ''cd '' @ project_dir @ '' && '' @ flutter_bin @ '' pub get''"

text \<open>\<^verbatim>\<open>get_flutter_dependencies\<close> exists in \<^verbatim>\<open>finsight_runner.py\<close> only.\<close>

definition get_flutter_dependencies :: "'w os \<Rightarrow> (bool, 'w) prog" where
  "get_flutter_dependencies os s =
     (case run_command os pub_get_cmd True False s of
        (Inl e, s1) \<Rightarrow> (Inl e, s1)
      | (Inr (success, out, err), s1) \<Rightarrow>
          if success then (Inr success, print_success ''Dependencies installed'' s1)
          else (Inr success, s1))"

definition clean_cmd :: string where
  "clean_cmd = ''cd '' @ project_dir @ '' && '' @ flutter_bin @ '' clean''"

definition android_build :: string where
  "android_build = pjoin (pjoin (pjoin project_dir ''android'') ''app'') ''build''"

definition clean_build :: "script \<Rightarrow> 'w os \<Rightarrow> (bool, 'w) prog" where
  "clean_build sc os s =
     (case run_command os clean_cmd True False s of
        (Inl e, s1) \<Rightarrow> (Inl e, s1)
      | (Inr r1, s1) \<Rightarrow>
          if os_exists os android_build (world s1) then
            (case rmtree os android_build (sc = Runner) s1 of
               (Inl e, s2) \<Rightarrow> (Inl e, s2)
             | (Inr u, s2) \<Rightarrow> (Inr True, print_success ''Build cleaned'' s2))
          else (Inr True, print_success ''Build cleaned'' s1))"

section \<open>Devices\<close>

definition devices_cmd :: string where
  "devices_cmd = adb @ '' devices -l''"

text \<open>
  The list comprehension of \<^verbatim>\<open>check_connected_devices\<close>:
  \<^verbatim>\<open>[line for line in lines[1:] if line.strip() and not line.startswith('*')]\<close>
  with \<^verbatim>\<open>lines = stdout.strip().split('\n')\<close>.
\<close>

definition device_lines :: "string \<Rightarrow> string list" where
  "device_lines stdout =
     filter (\<lambda>line. strip line \<noteq> [] \<and> \<not> startswith line ''*'')
       (tl (split_on nl (strip stdout)))"

definition check_connected_devices :: "'w os \<Rightarrow> (bool \<times> nat, 'w) prog" where
  "check_connected_devices os s =
     (case run_command os devices_cmd True True s of
        (Inl e, s1) \<Rightarrow> (Inl e, s1)
      | (Inr (success, stdout, err), s1) \<Rightarrow>
          if success \<and> stdout \<noteq> [] then
            (let devices = device_lines stdout in
             if devices \<noteq> [] then
               (Inr (True, length devices),
                print_success
                  (''Found '' @ show_nat (length devices) @ '' connected device(s):'') s1)
             else (Inr (False, 0), print_warning ''No devices found'' s1))
          else (Inr (False, 0), s1))"

definition flutter_run_cmd :: string where
  "flutter_run_cmd = ''cd '' @ project_dir @ '' && '' @ flutter_bin @ '' run''"

definition run_app :: "'w os \<Rightarrow> (bool, 'w) prog" where
  "run_app os s =
     (case check_connected_devices os s of
        (Inl e, s1) \<Rightarrow> (Inl e, s1)
      | (Inr (has_device, count), s1) \<Rightarrow>
          if \<not> has_device
          then (Inr False, print_error ''No devices connected. Cannot run app.'' s1)
          else
            (case run_command os flutter_run_cmd False False s1 of
               (Inl e, s2) \<Rightarrow> (Inl e, s2)
             | (Inr (success, out, err), s2) \<Rightarrow> (Inr success, s2)))"

definition adb_install_cmd :: "string \<Rightarrow> string" where
  "adb_install_cmd apk_path = adb @ '' install -r '' @ apk_path"

definition install_apk :: "'w os \<Rightarrow> string \<Rightarrow> (bool, 'w) prog" where
  "install_apk os apk_path s =
     (case check_connected_devices os s of
        (Inl e, s1) \<Rightarrow> (Inl e, s1)
      | (Inr (has_device, count), s1) \<Rightarrow>
          if \<not> has_device
          then (Inr False, print_error ''No device connected for installation'' s1)
          else
            (case run_command os (adb_install_cmd apk_path) True True s1 of
               (Inl e, s2) \<Rightarrow> (Inl e, s2)
             | (Inr (success, out, err), s2) \<Rightarrow>
                 if success then (Inr True, print_success ''APK installed successfully!'' s2)
                 else (Inr False, print_error (''Installation failed: '' @ err) s2)))"

section \<open>build_apk\<close>

definition build_cmd :: "script \<Rightarrow> string \<Rightarrow> string" where
  "build_cmd sc build_type =
     (if build_type = ''release'' then
        (case sc of
           Builder \<Rightarrow> ''cd '' @ project_dir @ '' && '' @ flutter_bin @ '' build apk''
         | Runner \<Rightarrow> ''cd '' @ project_dir @ '' && '' @ flutter_bin @ '' build apk --release'')
      else ''cd '' @ project_dir @ '' && '' @ flutter_bin @ '' build apk --debug'')"

definition apk_path_of :: "string \<Rightarrow> string" where
  "apk_path_of build_type =
     pjoin (pjoin (pjoin (pjoin (pjoin project_dir ''build'') ''app'') ''outputs'')
              ''flutter-apk'') (''app-'' @ build_type @ ''.apk'')"

text \<open>\<^verbatim>\<open>"R8" in stderr or "minify" in stderr.lower()\<close>.\<close>

definition minification_failed :: "string \<Rightarrow> bool" where
  "minification_failed stderr = (is_in ''R8'' stderr \<or> is_in ''minify'' (lower stderr))"

text \<open>
  \<^verbatim>\<open>build_apk\<close> calls itself with \<^verbatim>\<open>"debug"\<close> when the test above holds, whatever the
  current \<^verbatim>\<open>build_type\<close> is: nothing in the method bounds the recursion, so the model is
  a partial function and \<open>None\<close> stands for a call that does not return.
\<close>

partial_function (option) build_apk ::
  "script \<Rightarrow> 'w os \<Rightarrow> string \<Rightarrow> 'w st \<Rightarrow> ((exn + bool \<times> string option) \<times> 'w st) option"
where
  "build_apk sc os build_type s =
     (case run_command os (build_cmd sc build_type) True True s of
        (Inl e, s1) \<Rightarrow> Some (Inl e, s1)
      | (Inr (success, out, err), s1) \<Rightarrow>
          if success then
            (if os_exists os (apk_path_of build_type) (world s1) then
               (case os_st_size os (apk_path_of build_type) (world s1) of
                  Inl m \<Rightarrow> Some (Inl (Exn m), s1)
                | Inr st_size \<Rightarrow>
                    Some (Inr (True, Some (apk_path_of build_type)),
                          print_success (''Size: '' @ py_fmt_mb os st_size @ '' MB'')
                            (print_success (''Location: '' @ apk_path_of build_type)
                               (print_success ''APK built successfully!'' s1))))
             else Some (Inr (False, None), print_error ''APK file not found after build'' s1))
          else
            (if minification_failed err then
               build_apk sc os ''debug''
                 (print_warning ''R8 minification failed, trying debug build instead...''
                    (print_error ''Build failed'' s1))
             else Some (Inr (False, None), print_error ''Build failed'' s1)))"

section \<open>The step pipeline\<close>

definition failed_at_msg :: "script \<Rightarrow> string" where
  "failed_at_msg sc = (case sc of Builder \<Rightarrow> ''Failed at step: '' | Runner \<Rightarrow> ''Setup failed at: '')"

text \<open>
  The \<^verbatim>\<open>for step_name, step_func in steps\<close> loop of \<^verbatim>\<open>FlutterAPKBuilder.run\<close> and of
  \<^verbatim>\<open>FinSightRunner.run_setup\<close>, with its \<^verbatim>\<open>try\<close>/\<^verbatim>\<open>except Exception\<close>: the handler
  takes an \<open>Exn\<close> and lets a \<open>BaseExn\<close> pass. The result \<open>Inr True\<close> is the loop running
  to its end.
\<close>

fun run_steps :: "script \<Rightarrow> (string \<times> (bool, 'w) prog) list \<Rightarrow> (bool, 'w) prog" where
  "run_steps sc [] s = (Inr True, s)"
| "run_steps sc ((step_name, step_func) # steps) s =
     (case step_func s of
        (Inl (Exn m), s1) \<Rightarrow>
          (Inr False, print_error (''Exception in '' @ step_name @ '': '' @ m) s1)
      | (Inl (BaseExn m), s1) \<Rightarrow> (Inl (BaseExn m), s1)
      | (Inr ok, s1) \<Rightarrow>
          if \<not> ok then (Inr False, print_error (failed_at_msg sc @ step_name) s1)
          else run_steps sc steps s1)"

text \<open>
  The condition that the steps of a list all return True, each run on the state its
  predecessor left; the value is the state after the last of them.
\<close>

fun succeed_in_order :: "(string \<times> (bool, 'w) prog) list \<Rightarrow> 'w st \<Rightarrow> 'w st option" where
  "succeed_in_order [] s = Some s"
| "succeed_in_order ((step_name, step_func) # steps) s =
     (case step_func s of
        (Inr True, s1) \<Rightarrow> succeed_in_order steps s1
      | _ \<Rightarrow> None)"

definition setup_steps :: "'w os \<Rightarrow> (string \<times> (bool, 'w) prog) list" where
  "setup_steps os =
     [(''Checking Java'', check_java Runner os),
      (''Setting up Flutter'', setup_flutter Runner os),
      (''Setting up Android SDK'', setup_android_sdk Runner os),
      (''Installing SDK components'', install_sdk_components Runner os),
      (''Configuring Flutter'', configure_flutter_sdk Runner os),
      (''Getting dependencies'', get_flutter_dependencies os)]"

definition run_setup :: "'w os \<Rightarrow> (bool, 'w) prog" where
  "run_setup os s = run_steps Runner (setup_steps os) s"

text \<open>
  The step list of \<^verbatim>\<open>FlutterAPKBuilder.run\<close>. Its fifth step, \<^verbatim>\<open>fix_launcher_icons\<close>,
  patches resource files of the application and is a parameter here.
\<close>

definition builder_steps ::
  "'w os \<Rightarrow> (bool, 'w) prog \<Rightarrow> bool \<Rightarrow> (string \<times> (bool, 'w) prog) list" where
  "builder_steps os fix_launcher_icons skip_clean =
     [(''Checking Java'', check_java Builder os),
      (''Setting up Flutter'', setup_flutter Builder os),
      (''Setting up Android SDK'', setup_android_sdk Builder os),
      (''Installing SDK components'', install_sdk_components Builder os),
      (''Fixing launcher icons'', fix_launcher_icons),
      (''Configuring Flutter'', configure_flutter_sdk Builder os)]
     @ (if \<not> skip_clean then [(''Cleaning build'', clean_build Builder os)] else [])"

section \<open>A simulated machine\<close>

text \<open>
  A small instance of the operating system, for evaluating the model on concrete runs:
  the world is the list of paths that exist, and a command's outcome depends on the
  command alone.
\<close>

definition sim_os :: "(string \<Rightarrow> proc) \<Rightarrow> string list os" where
  "sim_os respond =
     \<lparr>os_run = (\<lambda>cmd capture w. (respond cmd, w)),
      os_exists = (\<lambda>p w. p \<in> set w),
      os_rmtree = (\<lambda>p w. (None, removeAll p w)),
      os_mkdir = (\<lambda>p w. (None, p # w)),
      os_st_size = (\<lambda>p w. if p \<in> set w then Inr 20971520 else Inl ''No such file''),
      py_fmt_mb = (\<lambda>n. show_nat (n div 1048576) @ ''.0''),
      py_signal_repr = (\<lambda>n. if n = 9 then Some ''<Signals.SIGKILL: 9>'' else None)\<rparr>"

definition start :: "'w \<Rightarrow> 'w st" where
  "start w = \<lparr>world = w, trace = [], console = []\<rparr>"

text \<open>The machine with Java, Flutter and the SDK command-line tools in place.\<close>

definition provisioned :: "string list" where
  "provisioned = [java_home, flutter_dir, cmdline_tools]"

definition all_ok :: "string \<Rightarrow> proc" where
  "all_ok cmd = Exited 0 [] []"

definition install_fails :: "string \<Rightarrow> proc" where
  "install_fails cmd =
     (if cmd = install_cmd then Exited 1 [] ''Warning: Failed to find package''
      else Exited 0 [] [])"

definition flutter_broken :: "string \<Rightarrow> proc" where
  "flutter_broken cmd =
     (if cmd = flutter_version_cmd then Exited 1 [] ''flutter: cannot execute''
      else Exited 0 [] [])"

definition java_broken :: "string \<Rightarrow> proc" where
  "java_broken cmd =
     (if cmd = java_version_cmd then Exited 1 [] ''java: cannot execute''
      else Exited 0 [] [])"

text \<open>
  Release builds that stop in the R8 step and say so on stderr; the debug build fails as
  well on the first machine and succeeds on the second.
\<close>

definition r8_debug_fails :: "string \<Rightarrow> proc" where
  "r8_debug_fails cmd =
     (if cmd = build_cmd Builder ''release'' \<or> cmd = build_cmd Runner ''release''
      then Exited 1 ''Running Gradle task'' ''ERROR: R8: Missing class''
      else if cmd = build_cmd Runner ''debug''
      then Exited 1 ''Running Gradle task'' ''FAILURE: Build failed with an exception.''
      else Exited 0 [] [])"

definition r8_debug_ok :: "string \<Rightarrow> proc" where
  "r8_debug_ok cmd =
     (if cmd = build_cmd Builder ''release'' \<or> cmd = build_cmd Runner ''release''
      then Exited 1 ''Running Gradle task'' ''ERROR: R8: Missing class''
      else Exited 0 [] [])"

text \<open>Device listings: a header, two devices and an advisory line; a header alone.\<close>

definition listing_two :: string where
  "listing_two =
     join [nl] [''List of devices attached'', ''emulator-5554 device product:sdk'',
                ''* daemon started successfully'', ''R58M123 device usb:1-1'', []]"

definition listing_none :: string where
  "listing_none = join [nl] [''List of devices attached'', [], []]"

definition two_devices :: "string \<Rightarrow> proc" where
  "two_devices cmd =
     (if cmd = devices_cmd then Exited 0 listing_two []
      else if cmd = adb_install_cmd (apk_path_of ''debug'') then Exited 1 [] ''adb: failed''
      else Exited 0 [] [])"

definition no_devices :: "string \<Rightarrow> proc" where
  "no_devices cmd = (if cmd = devices_cmd then Exited 0 listing_none [] else Exited 0 [] [])"

text \<open>
  Steps for trying the pipeline: one succeeds, one returns False, one raises a
  \<^verbatim>\<open>RuntimeError\<close>, one is interrupted by the user.
\<close>

definition step_ok :: "string \<Rightarrow> (bool, 'w) prog" where
  "step_ok m s = (Inr True, print_success m s)"

definition step_false :: "(bool, 'w) prog" where
  "step_false s = (Inr False, s)"

definition step_raises :: "(bool, 'w) prog" where
  "step_raises s = (Inl (Exn ''boom''), s)"

definition step_interrupted :: "(bool, 'w) prog" where
  "step_interrupted s = (Inl (BaseExn ''KeyboardInterrupt''), s)"

text \<open>The provisioned machine on which the user interrupts \<^verbatim>\<open>flutter --version\<close>.\<close>

definition interrupted :: "string \<Rightarrow> proc" where
  "interrupted cmd =
     (if cmd = flutter_version_cmd then Raised (BaseExn ''KeyboardInterrupt'')
      else Exited 0 [] [])"

definition tools_broken :: "string \<Rightarrow> proc" where
  "tools_broken cmd =
     (if cmd = flutter_version_cmd then Exited 1 [] ''flutter: cannot execute''
      else if cmd = sdkmanager_version_cmd then Exited 127 [] ''sdkmanager: not found''
      else Exited 0 [] [])"

section \<open>Properties of run_command\<close>

lemmas path_defs = project_dir_def flutter_dir_def android_sdk_dir_def java_home_def pjoin_def
  cmdline_tools_def sdkmanager_def flutter_bin_def adb_def

lemmas print_defs = print_success_def print_warning_def print_error_def

lemmas cmd_defs = apt_cmd_def java_version_cmd_def flutter_version_cmd_def flutter_clone_cmd_def
  flutter_no_analytics_cmd_def flutter_precache_cmd_def sdkmanager_version_cmd_def sdk_url_def
  sdk_zip_def wget_cmd_def unzip_cmd_def license_cmd_def components_def quoted_components_def
  install_cmd_def config_sdk_cmd_def pub_get_cmd_def clean_cmd_def devices_cmd_def
  flutter_run_cmd_def adb_install_cmd_def build_cmd_def dq_def sq_def

lemmas msg_defs = flutter_working_msg_def flutter_not_found_msg_def flutter_clone_failed_msg_def
  flutter_installed_msg_def components_installed_msg_def flutter_configured_msg_def
  failed_at_msg_def java_installed_msg_def

lemmas step_defs = check_java_def check_java_verify_def setup_flutter_def
  setup_flutter_install_def setup_android_sdk_def setup_android_sdk_install_def
  install_sdk_components_def configure_flutter_sdk_def get_flutter_dependencies_def
  clean_build_def rmtree_def mkdir_def

lemmas strip_defs = strip_def lstrip_def rstrip_def isspace_def nl_def

lemma run_command_ok:
  "os_run os cmd cap (world s) = (Exited 0 out err, w') \<Longrightarrow>
   run_command os cmd chk cap s =
     (Inr (True, if cap then out else [], if cap then err else []),
      s\<lparr>world := w', trace := trace s @ [Spawn cmd cap]\<rparr>)"
  by (simp add: run_command_def)

lemma run_command_check_nonzero:
  "os_run os cmd cap (world s) = (Exited rc out err, w') \<Longrightarrow> rc \<noteq> 0 \<Longrightarrow>
   run_command os cmd True cap s =
     (Inr (False, [], called_process_error_str os cmd rc),
      s\<lparr>world := w', trace := trace s @ [Spawn cmd cap]\<rparr>)"
  by (simp add: run_command_def)

lemma run_command_raised:
  "os_run os cmd cap (world s) = (Raised e, w') \<Longrightarrow>
   run_command os cmd chk cap s = (Inl e, s\<lparr>world := w', trace := trace s @ [Spawn cmd cap]\<rparr>)"
  by (simp add: run_command_def)

lemma run_command_state:
  "snd (run_command os cmd chk cap s) =
     s\<lparr>world := snd (os_run os cmd cap (world s)), trace := trace s @ [Spawn cmd cap]\<rparr>"
  by (simp add: run_command_def Let_def split: prod.splits proc.splits)

lemma run_command_failure_text:
  assumes "run_command os cmd True cap s = (Inr (False, out, err), s')"
  shows "\<exists>rc. err = called_process_error_str os cmd rc"
  using assms
  by (auto simp: run_command_def Let_def split: prod.splits proc.splits if_splits)

text \<open>
  C5. With output capture on, \<^verbatim>\<open>run_command\<close> should hand the child's own stdout and
  stderr to its caller, also when the child exits non-zero. It does not: every caller that
  captures keeps the default \<^verbatim>\<open>check=True\<close>, and then a non-zero exit comes back as
  \<^verbatim>\<open>(False, "", str(e))\<close>. On the machine below the release build exits 1 and writes
  \<^verbatim>\<open>ERROR: R8: Missing class\<close> to stderr; the caller receives the text of the exception,
  which holds the command line and the exit status. The failure is returned, not raised.
\<close>

theorem run_command_hides_child_stderr:
  "os_run (sim_os r8_debug_fails) (build_cmd Runner ''release'') True []
     = (Exited 1 ''Running Gradle task'' ''ERROR: R8: Missing class'', [])
   \<and> run_command (sim_os r8_debug_fails) (build_cmd Runner ''release'') True True (start []) =
       (Inr (False, [],
             ''Command '' @ [sq] @ build_cmd Runner ''release'' @ [sq]
               @ '' returned non-zero exit status 1.''),
        \<lparr>world = [], trace = [Spawn (build_cmd Runner ''release'') True], console = []\<rparr>)"
  by (simp add: run_command_def sim_os_def r8_debug_fails_def start_def
      called_process_error_str_def show_int_def show_nat.simps digit_def char_of_eq_iff)

section \<open>Properties of the step pipeline\<close>

lemma run_steps_raises_only_base:
  "fst (run_steps sc steps s) = Inl e \<Longrightarrow> \<exists>m. e = BaseExn m"
  by (induction sc steps s rule: run_steps.induct)
     (auto split: prod.splits sum.splits exn.splits if_splits)

lemma run_steps_after_successes:
  "succeed_in_order pre s = Some s' \<Longrightarrow> run_steps sc (pre @ rest) s = run_steps sc rest s'"
  by (induction pre s rule: succeed_in_order.induct)
     (auto split: prod.splits sum.splits bool.splits)

text \<open>
  C7, as the code has it. The steps run in order, each on the state its predecessor left.
  When the steps before \<open>step_func\<close> have all returned True and \<open>step_func\<close> returns
  False, or raises an instance of \<^verbatim>\<open>Exception\<close>, the pipeline returns False, the last line
  printed names the step, and the final state is the one \<open>step_func\<close> left: the steps
  after it have no part in the result, whatever they are. An exception outside
  \<^verbatim>\<open>Exception\<close> is not captured: it leaves the pipeline, and again no later step runs.
\<close>

theorem run_steps_fail_fast:
  assumes "succeed_in_order pre s = Some s'"
  shows "(fst (step_func s') = Inr False \<longrightarrow>
            run_steps sc (pre @ (step_name, step_func) # post) s =
              (Inr False, print_error (failed_at_msg sc @ step_name) (snd (step_func s'))))
         \<and> (fst (step_func s') = Inl (Exn m) \<longrightarrow>
              run_steps sc (pre @ (step_name, step_func) # post) s =
                (Inr False,
                 print_error (''Exception in '' @ step_name @ '': '' @ m) (snd (step_func s'))))
         \<and> (fst (step_func s') = Inl (BaseExn m) \<longrightarrow>
              run_steps sc (pre @ (step_name, step_func) # post) s =
                (Inl (BaseExn m), snd (step_func s')))"
  using run_steps_after_successes [OF assms]
  by (cases "step_func s'") auto

theorem run_steps_fail_fast_witness:
  "succeed_in_order [(''A'', step_ok ''A ran'')] (start ())
     = Some \<lparr>world = (), trace = [], console = [Success ''A ran'']\<rparr>
   \<and> fst (step_false \<lparr>world = (), trace = [], console = [Success ''A ran'']\<rparr>) = Inr False
   \<and> fst (step_raises \<lparr>world = (), trace = [], console = [Success ''A ran'']\<rparr>)
       = Inl (Exn ''boom'')
   \<and> fst (step_interrupted \<lparr>world = (), trace = [], console = [Success ''A ran'']\<rparr>)
       = Inl (BaseExn ''KeyboardInterrupt'')
   \<and> run_steps Runner [(''A'', step_ok ''A ran''), (''B'', step_false), (''C'', step_ok ''C ran'')]
        (start ())
      = (Inr False,
         \<lparr>world = (), trace = [], console = [Success ''A ran'', Error ''Setup failed at: B'']\<rparr>)
   \<and> run_steps Builder [(''A'', step_ok ''A ran''), (''B'', step_false), (''C'', step_ok ''C ran'')]
        (start ())
      = (Inr False,
         \<lparr>world = (), trace = [], console = [Success ''A ran'', Error ''Failed at step: B'']\<rparr>)
   \<and> run_steps Runner [(''A'', step_ok ''A ran''), (''B'', step_raises), (''C'', step_ok ''C ran'')]
        (start ())
      = (Inr False,
         \<lparr>world = (), trace = [], console = [Success ''A ran'', Error ''Exception in B: boom'']\<rparr>)
   \<and> run_steps Builder [(''A'', step_ok ''A ran''), (''B'', step_raises), (''C'', step_ok ''C ran'')]
        (start ())
      = (Inr False,
         \<lparr>world = (), trace = [], console = [Success ''A ran'', Error ''Exception in B: boom'']\<rparr>)
   \<and> run_steps Builder
        [(''A'', step_ok ''A ran''), (''B'', step_interrupted), (''C'', step_ok ''C ran'')]
        (start ())
      = (Inl (BaseExn ''KeyboardInterrupt''),
         \<lparr>world = (), trace = [], console = [Success ''A ran'']\<rparr>)"
proof -
  let ?t = "\<lparr>world = (), trace = [], console = [Success ''A ran'']\<rparr> :: unit st"
  let ?pre = "[(''A'', step_ok ''A ran'')] :: (string \<times> (bool, unit) prog) list"
  let ?post = "[(''C'', step_ok ''C ran'')] :: (string \<times> (bool, unit) prog) list"
  have h: "succeed_in_order ?pre (start ()) = Some ?t"
    by (simp add: step_ok_def start_def print_defs)
  have f: "fst (step_false ?t) = Inr False"
    by (simp add: step_false_def)
  have r: "fst (step_raises ?t) = Inl (Exn ''boom'')"
    by (simp add: step_raises_def)
  have i: "fst (step_interrupted ?t) = Inl (BaseExn ''KeyboardInterrupt'')"
    by (simp add: step_interrupted_def)
  note a = run_steps_fail_fast [OF h, where step_func = step_false and step_name = "''B''"
      and post = ?post]
  note b = run_steps_fail_fast [OF h, where step_func = step_raises and step_name = "''B''"
      and post = ?post and m = "''boom''"]
  note c = run_steps_fail_fast [OF h, where step_func = step_interrupted
      and step_name = "''B''" and post = ?post and m = "''KeyboardInterrupt''"]
  have c1: "run_steps Runner [(''A'', step_ok ''A ran''), (''B'', step_false),
              (''C'', step_ok ''C ran'')] (start ())
      = (Inr False, \<lparr>world = (), trace = [],
           console = [Success ''A ran'', Error ''Setup failed at: B'']\<rparr>)"
    using a [where sc = Runner] f by (simp add: step_false_def print_defs failed_at_msg_def)
  have c2: "run_steps Builder [(''A'', step_ok ''A ran''), (''B'', step_false),
              (''C'', step_ok ''C ran'')] (start ())
      = (Inr False, \<lparr>world = (), trace = [],
           console = [Success ''A ran'', Error ''Failed at step: B'']\<rparr>)"
    using a [where sc = Builder] f by (simp add: step_false_def print_defs failed_at_msg_def)
  have c3: "run_steps Runner [(''A'', step_ok ''A ran''), (''B'', step_raises),
              (''C'', step_ok ''C ran'')] (start ())
      = (Inr False, \<lparr>world = (), trace = [],
           console = [Success ''A ran'', Error ''Exception in B: boom'']\<rparr>)"
    using b [where sc = Runner] r by (simp add: step_raises_def print_defs)
  have c4: "run_steps Builder [(''A'', step_ok ''A ran''), (''B'', step_raises),
              (''C'', step_ok ''C ran'')] (start ())
      = (Inr False, \<lparr>world = (), trace = [],
           console = [Success ''A ran'', Error ''Exception in B: boom'']\<rparr>)"
    using b [where sc = Builder] r by (simp add: step_raises_def print_defs)
  have c5: "run_steps Builder [(''A'', step_ok ''A ran''), (''B'', step_interrupted),
              (''C'', step_ok ''C ran'')] (start ())
      = (Inl (BaseExn ''KeyboardInterrupt''),
         \<lparr>world = (), trace = [], console = [Success ''A ran'']\<rparr>)"
    using c [where sc = Builder] i by (simp add: step_interrupted_def)
  show ?thesis
    using h f r i c1 c2 c3 c4 c5 by (intro conjI) assumption+
qed

text \<open>
  C7 as stated fails for an exception outside \<^verbatim>\<open>Exception\<close>. On the provisioned machine
  where the user interrupts \<^verbatim>\<open>flutter --version\<close>, neither pipeline returns False: the
  \<^verbatim>\<open>KeyboardInterrupt\<close> raised in the second step leaves \<^verbatim>\<open>run_setup\<close>, and the step
  list of \<^verbatim>\<open>FlutterAPKBuilder.run\<close>, uncaptured.
\<close>

theorem interrupt_leaves_pipeline:
  "run_setup (sim_os interrupted) (start provisioned) =
     (Inl (BaseExn ''KeyboardInterrupt''),
      \<lparr>world = provisioned,
       trace = [Spawn java_version_cmd True, Spawn flutter_version_cmd True],
       console = [Success ''Java is installed'', Success ''Flutter directory exists'']\<rparr>)
   \<and> run_steps Builder
        (builder_steps (sim_os interrupted) (step_ok ''Launcher icons fixed'') False)
        (start provisioned) =
     (Inl (BaseExn ''KeyboardInterrupt''),
      \<lparr>world = provisioned,
       trace = [Spawn java_version_cmd True, Spawn flutter_version_cmd True],
       console = [Success ''Java is installed: Java 17'',
                  Success ''Flutter directory exists'']\<rparr>)"
  by (simp add: run_setup_def setup_steps_def builder_steps_def check_java_def
      check_java_verify_def setup_flutter_def run_command_def sim_os_def interrupted_def
      start_def provisioned_def print_defs java_installed_msg_def cmd_defs path_defs)

text \<open>
  Both step lists have the batched installation as their fourth step, after the three
  steps that check Java, Flutter and the SDK tools.
\<close>

lemma setup_steps_split:
  "setup_steps os =
     [(''Checking Java'', check_java Runner os),
      (''Setting up Flutter'', setup_flutter Runner os),
      (''Setting up Android SDK'', setup_android_sdk Runner os)]
     @ (''Installing SDK components'', install_sdk_components Runner os)
       # [(''Configuring Flutter'', configure_flutter_sdk Runner os),
          (''Getting dependencies'', get_flutter_dependencies os)]"
  by (simp add: setup_steps_def)

lemma builder_steps_split:
  "builder_steps os fix_launcher_icons skip_clean =
     [(''Checking Java'', check_java Builder os),
      (''Setting up Flutter'', setup_flutter Builder os),
      (''Setting up Android SDK'', setup_android_sdk Builder os)]
     @ (''Installing SDK components'', install_sdk_components Builder os)
       # ([(''Fixing launcher icons'', fix_launcher_icons),
           (''Configuring Flutter'', configure_flutter_sdk Builder os)]
          @ (if \<not> skip_clean then [(''Cleaning build'', clean_build Builder os)] else []))"
  by (simp add: builder_steps_def)

section \<open>Properties of the toolchain steps\<close>

lemma check_java_present:
  assumes "os_exists os java_home (world s)"
    and "os_run os java_version_cmd True (world s) = (Exited 0 out err, w')"
    and "java_installed_msg sc out = Inr m"
  shows "check_java sc os s =
           (Inr True,
            print_success m (s\<lparr>world := w', trace := trace s @ [Spawn java_version_cmd True]\<rparr>))"
  using assms by (simp add: check_java_def check_java_verify_def run_command_def Let_def)

lemma setup_flutter_present:
  assumes "os_exists os flutter_dir (world s)"
    and "os_run os flutter_version_cmd True (world s) = (Exited 0 out err, w')"
  shows "setup_flutter sc os s =
           (Inr True,
            print_success (flutter_working_msg sc)
              ((print_success ''Flutter directory exists'' s)
                 \<lparr>world := w', trace := trace s @ [Spawn flutter_version_cmd True]\<rparr>))"
  using assms by (simp add: setup_flutter_def run_command_def Let_def print_defs)

lemma setup_android_sdk_present:
  assumes "os_exists os cmdline_tools (world s)"
    and "os_run os sdkmanager_version_cmd True (world s) = (Exited 0 out err, w')"
  shows "setup_android_sdk sc os s =
           (Inr True,
            print_success ''Android SDK tools are working''
              ((print_success ''Android SDK command line tools exist'' s)
                 \<lparr>world := w', trace := trace s @ [Spawn sdkmanager_version_cmd True]\<rparr>))"
  using assms by (simp add: setup_android_sdk_def run_command_def Let_def print_defs)

lemma install_sdk_components_always_installs:
  assumes "os_run os license_cmd False (world s) = (Exited rc1 out1 err1, wa)"
    and "os_run os install_cmd False wa = (Exited rc out err, wb)"
  shows "fst (install_sdk_components sc os s) = Inr (rc = 0)
         \<and> world (snd (install_sdk_components sc os s)) = wb
         \<and> trace (snd (install_sdk_components sc os s)) =
             trace s @ [Spawn license_cmd False, Spawn install_cmd False]"
  using assms by (simp add: install_sdk_components_def run_command_def Let_def print_defs)

text \<open>
  C3, as the code has it. With Java, Flutter and the SDK command-line tools present and
  their verification commands exiting 0, the steps \<^verbatim>\<open>check_java\<close>, \<^verbatim>\<open>setup_flutter\<close> and
  \<^verbatim>\<open>setup_android_sdk\<close> run one verification command each and nothing else.
  \<^verbatim>\<open>install_sdk_components\<close> has no presence test: it runs the licence command and the
  batched installation on every run.
\<close>

theorem provisioned_rerun:
  assumes "os_exists os java_home (world s)"
    and "os_run os java_version_cmd True (world s) = (Exited 0 outa erra, wa)"
    and "java_installed_msg sc outa = Inr m"
    and "os_exists os flutter_dir wa"
    and "os_run os flutter_version_cmd True wa = (Exited 0 outb errb, wb)"
    and "os_exists os cmdline_tools wb"
    and "os_run os sdkmanager_version_cmd True wb = (Exited 0 outc errc, wc)"
    and "os_run os license_cmd False wc = (Exited rcd outd errd, wd)"
    and "os_run os install_cmd False wd = (Exited rce oute erre, we)"
  shows "\<exists>s'. run_steps sc
                [(''Checking Java'', check_java sc os),
                 (''Setting up Flutter'', setup_flutter sc os),
                 (''Setting up Android SDK'', setup_android_sdk sc os)] s = (Inr True, s')
              \<and> world s' = wc
              \<and> trace s' = trace s @ [Spawn java_version_cmd True,
                                       Spawn flutter_version_cmd True,
                                       Spawn sdkmanager_version_cmd True]
              \<and> fst (install_sdk_components sc os s') = Inr (rce = 0)
              \<and> trace (snd (install_sdk_components sc os s')) =
                  trace s' @ [Spawn license_cmd False, Spawn install_cmd False]"
proof -
  let ?s1 = "print_success m (s\<lparr>world := wa, trace := trace s @ [Spawn java_version_cmd True]\<rparr>)"
  let ?s2 = "print_success (flutter_working_msg sc)
              ((print_success ''Flutter directory exists'' ?s1)
                 \<lparr>world := wb, trace := trace ?s1 @ [Spawn flutter_version_cmd True]\<rparr>)"
  let ?s3 = "print_success ''Android SDK tools are working''
              ((print_success ''Android SDK command line tools exist'' ?s2)
                 \<lparr>world := wc, trace := trace ?s2 @ [Spawn sdkmanager_version_cmd True]\<rparr>)"
  have j: "check_java sc os s = (Inr True, ?s1)"
    using assms(1,2,3) by (rule check_java_present)
  have f: "setup_flutter sc os ?s1 = (Inr True, ?s2)"
    by (rule setup_flutter_present) (simp_all add: print_defs assms)
  have a: "setup_android_sdk sc os ?s2 = (Inr True, ?s3)"
    by (rule setup_android_sdk_present) (simp_all add: print_defs assms)
  have run: "run_steps sc
                [(''Checking Java'', check_java sc os),
                 (''Setting up Flutter'', setup_flutter sc os),
                 (''Setting up Android SDK'', setup_android_sdk sc os)] s = (Inr True, ?s3)"
    by (simp add: j f a)
  have w3: "world ?s3 = wc" and t3: "trace ?s3 = trace s @ [Spawn java_version_cmd True,
                                       Spawn flutter_version_cmd True,
                                       Spawn sdkmanager_version_cmd True]"
    by (simp_all add: print_defs)
  have i: "fst (install_sdk_components sc os ?s3) = Inr (rce = 0)
         \<and> world (snd (install_sdk_components sc os ?s3)) = we
         \<and> trace (snd (install_sdk_components sc os ?s3)) =
             trace ?s3 @ [Spawn license_cmd False, Spawn install_cmd False]"
    by (rule install_sdk_components_always_installs [where wa = wd])
       (simp_all add: print_defs assms)
  show ?thesis
    using run w3 t3 i by blast
qed

theorem provisioned_rerun_witness:
  "os_exists (sim_os all_ok) java_home (world (start provisioned))
   \<and> os_run (sim_os all_ok) java_version_cmd True (world (start provisioned))
       = (Exited 0 [] [], provisioned)
   \<and> java_installed_msg Runner [] = Inr ''Java is installed''
   \<and> os_exists (sim_os all_ok) flutter_dir provisioned
   \<and> os_run (sim_os all_ok) flutter_version_cmd True provisioned = (Exited 0 [] [], provisioned)
   \<and> os_exists (sim_os all_ok) cmdline_tools provisioned
   \<and> os_run (sim_os all_ok) sdkmanager_version_cmd True provisioned
       = (Exited 0 [] [], provisioned)
   \<and> os_run (sim_os all_ok) license_cmd False provisioned = (Exited 0 [] [], provisioned)
   \<and> os_run (sim_os all_ok) install_cmd False provisioned = (Exited 0 [] [], provisioned)
   \<and> (\<exists>s'. run_steps Runner
                [(''Checking Java'', check_java Runner (sim_os all_ok)),
                 (''Setting up Flutter'', setup_flutter Runner (sim_os all_ok)),
                 (''Setting up Android SDK'', setup_android_sdk Runner (sim_os all_ok))]
                (start provisioned) = (Inr True, s')
              \<and> world s' = provisioned
              \<and> trace s' = trace (start provisioned)
                              @ [Spawn java_version_cmd True, Spawn flutter_version_cmd True,
                                 Spawn sdkmanager_version_cmd True]
              \<and> fst (install_sdk_components Runner (sim_os all_ok) s') = Inr ((0::int) = 0)
              \<and> trace (snd (install_sdk_components Runner (sim_os all_ok) s')) =
                  trace s' @ [Spawn license_cmd False, Spawn install_cmd False])"
proof -
  have e: "os_exists (sim_os all_ok) java_home (world (start provisioned))"
    "os_exists (sim_os all_ok) flutter_dir provisioned"
    "os_exists (sim_os all_ok) cmdline_tools provisioned"
    by (simp_all add: sim_os_def start_def provisioned_def)
  have r0: "os_run (sim_os all_ok) java_version_cmd True (world (start provisioned))
              = (Exited 0 [] [], provisioned)"
    by (simp add: sim_os_def all_ok_def start_def)
  have r: "\<And>cmd cap. os_run (sim_os all_ok) cmd cap provisioned = (Exited 0 [] [], provisioned)"
    by (simp add: sim_os_def all_ok_def)
  have m: "java_installed_msg Runner [] = Inr ''Java is installed''"
    by (simp add: java_installed_msg_def)
  note t = provisioned_rerun [OF e(1) r0 m e(2) r e(3) r r r]
  show ?thesis
    using e r0 r m t by (intro conjI) assumption+
qed

lemma resolution_on_provisioned:
  "run_steps Runner (take 4 (setup_steps (sim_os all_ok)))
     \<lparr>world = provisioned, trace = t, console = c\<rparr> =
   (Inr True,
    \<lparr>world = provisioned,
     trace = t @ [Spawn java_version_cmd True, Spawn flutter_version_cmd True,
                  Spawn sdkmanager_version_cmd True, Spawn license_cmd False,
                  Spawn install_cmd False],
     console = c @ [Success ''Java is installed'', Success ''Flutter directory exists'',
                    Success ''Flutter is working correctly'',
                    Success ''Android SDK command line tools exist'',
                    Success ''Android SDK tools are working'',
                    Success ''Android SDK components installed successfully'']\<rparr>)"
  by (simp add: setup_steps_def step_defs run_command_def sim_os_def
      all_ok_def provisioned_def print_defs msg_defs)

text \<open>
  C3 as stated fails. On the provisioned machine where every command succeeds, the second
  run of the four resolution steps spawns the three verification commands and then the
  licence command and the batched \<^verbatim>\<open>sdkmanager\<close> installation.
\<close>

theorem second_run_installs_again:
  "(let os = sim_os all_ok;
        steps = take 4 (setup_steps os);
        first = run_steps Runner steps (start provisioned);
        second = run_steps Runner steps (snd first)
    in fst first = Inr True \<and> world (snd first) = provisioned \<and> fst second = Inr True
       \<and> drop (length (trace (snd first))) (trace (snd second)) =
           [Spawn java_version_cmd True, Spawn flutter_version_cmd True,
            Spawn sdkmanager_version_cmd True, Spawn license_cmd False,
            Spawn install_cmd False]
       \<and> Spawn install_cmd False \<in> set (drop (length (trace (snd first))) (trace (snd second))))"
  by (simp add: Let_def start_def resolution_on_provisioned)

lemma setup_flutter_reinstall:
  assumes "os_exists os flutter_dir (world s)"
    and "os_run os flutter_version_cmd True (world s) = (Exited rc out err, wa)"
    and "rc \<noteq> 0"
    and "os_rmtree os flutter_dir wa = (None, wb)"
    and "os_run os flutter_clone_cmd False wb = (Exited rcc outc errc, wc)"
    and "os_run os flutter_no_analytics_cmd False wc = (Exited rcd outd errd, wd)"
    and "os_run os (flutter_precache_cmd sc) False wd = (Exited rce oute erre, we)"
  shows "fst (setup_flutter sc os s) = Inr (rcc = 0)
         \<and> trace (snd (setup_flutter sc os s)) =
             trace s @ [Spawn flutter_version_cmd True, Rmtree flutter_dir,
                        Spawn flutter_clone_cmd False]
                     @ (if rcc = 0
                        then [Spawn flutter_no_analytics_cmd False,
                              Spawn (flutter_precache_cmd sc) False]
                        else [])"
  using assms
  by (simp add: setup_flutter_def setup_flutter_install_def rmtree_def run_command_def Let_def
      print_defs)

lemma setup_android_sdk_reinstall:
  assumes "os_exists os cmdline_tools (world s)"
    and "os_run os sdkmanager_version_cmd True (world s) = (Exited rc out err, wa)"
    and "rc \<noteq> 0"
    and "os_rmtree os android_sdk_dir wa = (r, wb)"
    and "os_run os (wget_cmd sc) False wb = (Exited rcc outc errc, wc)"
    and "os_mkdir os cmdline_tools wc = (None, wd)"
    and "os_run os unzip_cmd False wd = (Exited rce oute erre, we)"
  shows "fst (setup_android_sdk sc os s) = Inr (rcc = 0 \<and> rce = 0)
         \<and> trace (snd (setup_android_sdk sc os s)) =
             trace s @ [Spawn sdkmanager_version_cmd True, Rmtree android_sdk_dir,
                        Spawn (wget_cmd sc) False]
                     @ (if rcc = 0 then [Mkdir cmdline_tools, Spawn unzip_cmd False] else [])"
  using assms
  by (cases r)
     (simp_all add: setup_android_sdk_def setup_android_sdk_install_def rmtree_def mkdir_def
      run_command_def Let_def print_defs)

lemma cmd_distinct:
  "flutter_clone_cmd \<noteq> flutter_version_cmd"
  "flutter_no_analytics_cmd \<noteq> flutter_version_cmd"
  "flutter_precache_cmd sc \<noteq> flutter_version_cmd"
  "wget_cmd sc \<noteq> flutter_version_cmd"
  "unzip_cmd \<noteq> flutter_version_cmd"
  "flutter_clone_cmd \<noteq> sdkmanager_version_cmd"
  "flutter_no_analytics_cmd \<noteq> sdkmanager_version_cmd"
  "flutter_precache_cmd sc \<noteq> sdkmanager_version_cmd"
  "wget_cmd sc \<noteq> sdkmanager_version_cmd"
  "unzip_cmd \<noteq> sdkmanager_version_cmd"
  "sdkmanager_version_cmd \<noteq> flutter_version_cmd"
  by (cases sc; simp add: cmd_defs path_defs)+

text \<open>
  C4, as the code has it. When Flutter's directory exists and its verification command
  fails, \<^verbatim>\<open>setup_flutter\<close> removes the tree once and clones once; it returns True exactly
  when the clone exits 0, after the two configuration commands, and does not verify again.
  \<^verbatim>\<open>setup_android_sdk\<close> does the same with the SDK tree: one removal, one download, and
  after a successful download one \<^verbatim>\<open>mkdir\<close> and one extraction; it returns True exactly
  when download and extraction exit 0. A failed installation command is not retried.
\<close>

theorem reinstall_once_no_reverification:
  assumes "os_exists os flutter_dir (world s)"
    and "os_run os flutter_version_cmd True (world s) = (Exited rc out err, wa)"
    and "rc \<noteq> 0"
    and "os_rmtree os flutter_dir wa = (None, wb)"
    and "os_run os flutter_clone_cmd False wb = (Exited rcc outc errc, wc)"
    and "os_run os flutter_no_analytics_cmd False wc = (Exited rcd outd errd, wd)"
    and "os_run os (flutter_precache_cmd sc) False wd = (Exited rce oute erre, we)"
    and "os_exists os cmdline_tools (world t)"
    and "os_run os sdkmanager_version_cmd True (world t) = (Exited rc' out' err', va)"
    and "rc' \<noteq> 0"
    and "os_rmtree os android_sdk_dir va = (r, vb)"
    and "os_run os (wget_cmd sc) False vb = (Exited rcw outw errw, vc)"
    and "os_mkdir os cmdline_tools vc = (None, vd)"
    and "os_run os unzip_cmd False vd = (Exited rcu outu erru, ve)"
  shows "fst (setup_flutter sc os s) = Inr (rcc = 0)
         \<and> trace (snd (setup_flutter sc os s)) =
             trace s @ [Spawn flutter_version_cmd True, Rmtree flutter_dir,
                        Spawn flutter_clone_cmd False]
                     @ (if rcc = 0
                        then [Spawn flutter_no_analytics_cmd False,
                              Spawn (flutter_precache_cmd sc) False]
                        else [])
         \<and> fst (setup_android_sdk sc os t) = Inr (rcw = 0 \<and> rcu = 0)
         \<and> trace (snd (setup_android_sdk sc os t)) =
             trace t @ [Spawn sdkmanager_version_cmd True, Rmtree android_sdk_dir,
                        Spawn (wget_cmd sc) False]
                     @ (if rcw = 0 then [Mkdir cmdline_tools, Spawn unzip_cmd False] else [])"
  using setup_flutter_reinstall [OF assms(1-7)] setup_android_sdk_reinstall [OF assms(8-14)]
  by simp

theorem reinstall_once_no_reverification_witness:
  "os_exists (sim_os tools_broken) flutter_dir (world (start provisioned))
   \<and> os_run (sim_os tools_broken) flutter_version_cmd True (world (start provisioned))
       = (Exited 1 [] ''flutter: cannot execute'', provisioned)
   \<and> (1::int) \<noteq> 0
   \<and> os_rmtree (sim_os tools_broken) flutter_dir provisioned = (None, [java_home, cmdline_tools])
   \<and> os_run (sim_os tools_broken) flutter_clone_cmd False [java_home, cmdline_tools]
       = (Exited 0 [] [], [java_home, cmdline_tools])
   \<and> os_run (sim_os tools_broken) flutter_no_analytics_cmd False [java_home, cmdline_tools]
       = (Exited 0 [] [], [java_home, cmdline_tools])
   \<and> os_run (sim_os tools_broken) (flutter_precache_cmd Runner) False [java_home, cmdline_tools]
       = (Exited 0 [] [], [java_home, cmdline_tools])
   \<and> os_exists (sim_os tools_broken) cmdline_tools (world (start provisioned))
   \<and> os_run (sim_os tools_broken) sdkmanager_version_cmd True (world (start provisioned))
       = (Exited 127 [] ''sdkmanager: not found'', provisioned)
   \<and> (127::int) \<noteq> 0
   \<and> os_rmtree (sim_os tools_broken) android_sdk_dir provisioned = (None, provisioned)
   \<and> os_run (sim_os tools_broken) (wget_cmd Runner) False provisioned
       = (Exited 0 [] [], provisioned)
   \<and> os_mkdir (sim_os tools_broken) cmdline_tools provisioned
       = (None, cmdline_tools # provisioned)
   \<and> os_run (sim_os tools_broken) unzip_cmd False (cmdline_tools # provisioned)
       = (Exited 0 [] [], cmdline_tools # provisioned)
   \<and> fst (setup_flutter Runner (sim_os tools_broken) (start provisioned)) = Inr True
   \<and> trace (snd (setup_flutter Runner (sim_os tools_broken) (start provisioned))) =
       [Spawn flutter_version_cmd True, Rmtree flutter_dir, Spawn flutter_clone_cmd False,
        Spawn flutter_no_analytics_cmd False, Spawn (flutter_precache_cmd Runner) False]
   \<and> fst (setup_android_sdk Runner (sim_os tools_broken) (start provisioned)) = Inr True
   \<and> trace (snd (setup_android_sdk Runner (sim_os tools_broken) (start provisioned))) =
       [Spawn sdkmanager_version_cmd True, Rmtree android_sdk_dir,
        Spawn (wget_cmd Runner) False, Mkdir cmdline_tools, Spawn unzip_cmd False]"
proof -
  have ex: "os_exists (sim_os tools_broken) flutter_dir (world (start provisioned))"
    "os_exists (sim_os tools_broken) cmdline_tools (world (start provisioned))"
    by (simp_all add: sim_os_def start_def provisioned_def)
  have v: "os_run (sim_os tools_broken) flutter_version_cmd True (world (start provisioned))
             = (Exited 1 [] ''flutter: cannot execute'', provisioned)"
    "os_run (sim_os tools_broken) sdkmanager_version_cmd True (world (start provisioned))
       = (Exited 127 [] ''sdkmanager: not found'', provisioned)"
    by (simp_all add: sim_os_def tools_broken_def start_def cmd_distinct)
  have rm: "os_rmtree (sim_os tools_broken) flutter_dir provisioned
              = (None, [java_home, cmdline_tools])"
    "os_rmtree (sim_os tools_broken) android_sdk_dir provisioned = (None, provisioned)"
    by (simp_all add: sim_os_def provisioned_def path_defs)
  have mk: "os_mkdir (sim_os tools_broken) cmdline_tools provisioned
              = (None, cmdline_tools # provisioned)"
    by (simp add: sim_os_def)
  have ok: "\<And>w. os_run (sim_os tools_broken) flutter_clone_cmd False w = (Exited 0 [] [], w)"
    "\<And>w. os_run (sim_os tools_broken) flutter_no_analytics_cmd False w = (Exited 0 [] [], w)"
    "\<And>w. os_run (sim_os tools_broken) (flutter_precache_cmd Runner) False w
           = (Exited 0 [] [], w)"
    "\<And>w. os_run (sim_os tools_broken) (wget_cmd Runner) False w = (Exited 0 [] [], w)"
    "\<And>w. os_run (sim_os tools_broken) unzip_cmd False w = (Exited 0 [] [], w)"
    by (simp_all add: sim_os_def tools_broken_def cmd_distinct)
  have n: "(1::int) \<noteq> 0" "(127::int) \<noteq> 0"
    by simp_all
  note t = reinstall_once_no_reverification
             [OF ex(1) v(1) n(1) rm(1) ok(1) ok(2) ok(3) ex(2) v(2) n(2) rm(2) ok(4) mk ok(5)]
  have t': "fst (setup_flutter Runner (sim_os tools_broken) (start provisioned)) = Inr True"
    "trace (snd (setup_flutter Runner (sim_os tools_broken) (start provisioned))) =
       [Spawn flutter_version_cmd True, Rmtree flutter_dir, Spawn flutter_clone_cmd False,
        Spawn flutter_no_analytics_cmd False, Spawn (flutter_precache_cmd Runner) False]"
    "fst (setup_android_sdk Runner (sim_os tools_broken) (start provisioned)) = Inr True"
    "trace (snd (setup_android_sdk Runner (sim_os tools_broken) (start provisioned))) =
       [Spawn sdkmanager_version_cmd True, Rmtree android_sdk_dir,
        Spawn (wget_cmd Runner) False, Mkdir cmdline_tools, Spawn unzip_cmd False]"
    using t by (simp_all add: start_def)
  show ?thesis
    using ex v rm mk ok n t' by (intro conjI) assumption+
qed

text \<open>
  C4 as stated fails. Where Flutter's directory exists and \<^verbatim>\<open>flutter --version\<close> fails
  whenever it is run, \<^verbatim>\<open>setup_flutter\<close> removes the tree, clones once and returns True: the
  verification command runs once, before the removal, and not again. Where Java's
  directory exists and \<^verbatim>\<open>java -version\<close> fails, \<^verbatim>\<open>check_java\<close> returns False and removes and
  reinstalls nothing.
\<close>

theorem reinstall_without_reverification:
  "setup_flutter Runner (sim_os flutter_broken) (start provisioned) =
     (Inr True,
      \<lparr>world = [java_home, cmdline_tools],
       trace = [Spawn flutter_version_cmd True, Rmtree flutter_dir,
                Spawn flutter_clone_cmd False, Spawn flutter_no_analytics_cmd False,
                Spawn (flutter_precache_cmd Runner) False],
       console = [Success ''Flutter directory exists'',
                  Warning ''Flutter directory exists but not working, reinstalling...'',
                  Warning ''Flutter not found, installing (this may take a few minutes)...'',
                  Success ''Flutter SDK installed successfully'']\<rparr>)
   \<and> fst (os_run (sim_os flutter_broken) flutter_version_cmd True [java_home, cmdline_tools])
       = Exited 1 [] ''flutter: cannot execute''
   \<and> check_java Runner (sim_os java_broken) (start provisioned) =
       (Inr False,
        \<lparr>world = provisioned, trace = [Spawn java_version_cmd True], console = []\<rparr>)"
  by (simp add: step_defs run_command_def sim_os_def flutter_broken_def java_broken_def
      start_def provisioned_def print_defs msg_defs cmd_defs path_defs
      called_process_error_str_def)

section \<open>The pipeline when the batched installation fails\<close>

lemma install_sdk_components_nonzero:
  assumes "os_run os license_cmd False (world s) = (Exited rc1 out1 err1, wa)"
    and "os_run os install_cmd False wa = (Exited rc out err, wb)" and "rc \<noteq> 0"
  shows "install_sdk_components sc os s =
           (Inr False,
            print_error ''Failed to install some SDK components''
              (s\<lparr>world := wb,
                 trace := trace s @ [Spawn license_cmd False, Spawn install_cmd False]\<rparr>))"
  using assms by (simp add: install_sdk_components_def run_command_def Let_def)

lemma pipeline_stops_at_install:
  assumes "os_exists os java_home (world s)"
    and "os_run os java_version_cmd True (world s) = (Exited 0 outa erra, wa)"
    and "java_installed_msg sc outa = Inr m"
    and "os_exists os flutter_dir wa"
    and "os_run os flutter_version_cmd True wa = (Exited 0 outb errb, wb)"
    and "os_exists os cmdline_tools wb"
    and "os_run os sdkmanager_version_cmd True wb = (Exited 0 outc errc, wc)"
    and "os_run os license_cmd False wc = (Exited rcd outd errd, wd)"
    and "os_run os install_cmd False wd = (Exited rce oute erre, we)"
    and "rce \<noteq> 0"
  shows "run_steps sc
           ([(''Checking Java'', check_java sc os),
             (''Setting up Flutter'', setup_flutter sc os),
             (''Setting up Android SDK'', setup_android_sdk sc os)]
            @ (''Installing SDK components'', install_sdk_components sc os) # post) s =
         (Inr False,
          s\<lparr>world := we,
            trace := trace s @ [Spawn java_version_cmd True, Spawn flutter_version_cmd True,
                                Spawn sdkmanager_version_cmd True, Spawn license_cmd False,
                                Spawn install_cmd False],
            console := console s @
              [Success m, Success ''Flutter directory exists'',
               Success (flutter_working_msg sc),
               Success ''Android SDK command line tools exist'',
               Success ''Android SDK tools are working'',
               Error ''Failed to install some SDK components'',
               Error (failed_at_msg sc @ ''Installing SDK components'')]\<rparr>)"
proof -
  let ?s1 = "print_success m (s\<lparr>world := wa, trace := trace s @ [Spawn java_version_cmd True]\<rparr>)"
  let ?s2 = "print_success (flutter_working_msg sc)
              ((print_success ''Flutter directory exists'' ?s1)
                 \<lparr>world := wb, trace := trace ?s1 @ [Spawn flutter_version_cmd True]\<rparr>)"
  let ?s3 = "print_success ''Android SDK tools are working''
              ((print_success ''Android SDK command line tools exist'' ?s2)
                 \<lparr>world := wc, trace := trace ?s2 @ [Spawn sdkmanager_version_cmd True]\<rparr>)"
  have j: "check_java sc os s = (Inr True, ?s1)"
    using assms(1,2,3) by (rule check_java_present)
  have f: "setup_flutter sc os ?s1 = (Inr True, ?s2)"
    by (rule setup_flutter_present) (simp_all add: print_defs assms)
  have a: "setup_android_sdk sc os ?s2 = (Inr True, ?s3)"
    by (rule setup_android_sdk_present) (simp_all add: print_defs assms)
  have i: "install_sdk_components sc os ?s3 =
             (Inr False,
              print_error ''Failed to install some SDK components''
                (?s3\<lparr>world := we,
                    trace := trace ?s3 @ [Spawn license_cmd False, Spawn install_cmd False]\<rparr>))"
    using install_sdk_components_nonzero [of os ?s3 rcd outd errd wd rce oute erre we sc]
      assms(8,9,10)
    by (simp add: print_defs)
  show ?thesis
    by (simp add: j f a i) (simp add: print_defs)
qed

text \<open>
  C2, as the code has it. On a machine where Java, Flutter and the SDK command-line tools
  are present and verify, and where the batched \<^verbatim>\<open>sdkmanager\<close> installation exits
  non-zero (the licence command before it having returned), \<^verbatim>\<open>install_sdk_components\<close>
  prints an error and returns False, and both pipelines, \<^verbatim>\<open>run_setup\<close> and the step list
  of \<^verbatim>\<open>FlutterAPKBuilder.run\<close>, stop at the step \<^verbatim>\<open>Installing SDK components\<close>: they
  return False and name the step, and the installation is the last command spawned.
\<close>

theorem install_failure_halts_pipeline:
  assumes "os_exists os java_home (world s)"
    and "os_run os java_version_cmd True (world s) = (Exited 0 outa erra, wa)"
    and "java_installed_msg Builder outa = Inr m"
    and "os_exists os flutter_dir wa"
    and "os_run os flutter_version_cmd True wa = (Exited 0 outb errb, wb)"
    and "os_exists os cmdline_tools wb"
    and "os_run os sdkmanager_version_cmd True wb = (Exited 0 outc errc, wc)"
    and "os_run os license_cmd False wc = (Exited rcd outd errd, wd)"
    and "os_run os install_cmd False wd = (Exited rce oute erre, we)"
    and "rce \<noteq> 0"
  shows "run_setup os s =
           (Inr False,
            s\<lparr>world := we,
              trace := trace s @ [Spawn java_version_cmd True, Spawn flutter_version_cmd True,
                                  Spawn sdkmanager_version_cmd True, Spawn license_cmd False,
                                  Spawn install_cmd False],
              console := console s @
                [Success ''Java is installed'', Success ''Flutter directory exists'',
                 Success ''Flutter is working correctly'',
                 Success ''Android SDK command line tools exist'',
                 Success ''Android SDK tools are working'',
                 Error ''Failed to install some SDK components'',
                 Error ''Setup failed at: Installing SDK components'']\<rparr>)
         \<and> run_steps Builder (builder_steps os fix_launcher_icons skip_clean) s =
           (Inr False,
            s\<lparr>world := we,
              trace := trace s @ [Spawn java_version_cmd True, Spawn flutter_version_cmd True,
                                  Spawn sdkmanager_version_cmd True, Spawn license_cmd False,
                                  Spawn install_cmd False],
              console := console s @
                [Success m, Success ''Flutter directory exists'',
                 Success ''Flutter is working'',
                 Success ''Android SDK command line tools exist'',
                 Success ''Android SDK tools are working'',
                 Error ''Failed to install some SDK components'',
                 Error ''Failed at step: Installing SDK components'']\<rparr>)
         \<and> (world t = wc \<longrightarrow>
              install_sdk_components sc os t =
                (Inr False,
                 print_error ''Failed to install some SDK components''
                   (t\<lparr>world := we,
                      trace := trace t @ [Spawn license_cmd False, Spawn install_cmd False]\<rparr>)))"
proof -
  have r: "java_installed_msg Runner outa = Inr ''Java is installed''"
    by (simp add: java_installed_msg_def)
  note runner = pipeline_stops_at_install
    [OF assms(1,2) r assms(4-10),
     where post = "[(''Configuring Flutter'', configure_flutter_sdk Runner os),
                    (''Getting dependencies'', get_flutter_dependencies os)]"]
  note builder = pipeline_stops_at_install
    [OF assms(1-10),
     where post = "[(''Fixing launcher icons'', fix_launcher_icons),
                    (''Configuring Flutter'', configure_flutter_sdk Builder os)]
                   @ (if \<not> skip_clean then [(''Cleaning build'', clean_build Builder os)]
                      else [])"]
  have a: "run_setup os s =
           (Inr False,
            s\<lparr>world := we,
              trace := trace s @ [Spawn java_version_cmd True, Spawn flutter_version_cmd True,
                                  Spawn sdkmanager_version_cmd True, Spawn license_cmd False,
                                  Spawn install_cmd False],
              console := console s @
                [Success ''Java is installed'', Success ''Flutter directory exists'',
                 Success ''Flutter is working correctly'',
                 Success ''Android SDK command line tools exist'',
                 Success ''Android SDK tools are working'',
                 Error ''Failed to install some SDK components'',
                 Error ''Setup failed at: Installing SDK components'']\<rparr>)"
    unfolding run_setup_def setup_steps_split
    using runner by (simp add: flutter_working_msg_def failed_at_msg_def)
  have b: "run_steps Builder (builder_steps os fix_launcher_icons skip_clean) s =
           (Inr False,
            s\<lparr>world := we,
              trace := trace s @ [Spawn java_version_cmd True, Spawn flutter_version_cmd True,
                                  Spawn sdkmanager_version_cmd True, Spawn license_cmd False,
                                  Spawn install_cmd False],
              console := console s @
                [Success m, Success ''Flutter directory exists'',
                 Success ''Flutter is working'',
                 Success ''Android SDK command line tools exist'',
                 Success ''Android SDK tools are working'',
                 Error ''Failed to install some SDK components'',
                 Error ''Failed at step: Installing SDK components'']\<rparr>)"
    unfolding builder_steps_split
    using builder by (simp add: flutter_working_msg_def failed_at_msg_def)
  have c: "world t = wc \<longrightarrow>
              install_sdk_components sc os t =
                (Inr False,
                 print_error ''Failed to install some SDK components''
                   (t\<lparr>world := we,
                      trace := trace t @ [Spawn license_cmd False, Spawn install_cmd False]\<rparr>))"
    using install_sdk_components_nonzero [of os t rcd outd errd wd rce oute erre we sc]
      assms(8,9,10) by simp
  show ?thesis
    using a b c by (intro conjI)
qed

theorem install_failure_halts_pipeline_witness:
  "os_exists (sim_os install_fails) java_home (world (start provisioned))
   \<and> os_run (sim_os install_fails) java_version_cmd True (world (start provisioned))
       = (Exited 0 [] [], provisioned)
   \<and> java_installed_msg Builder [] = Inr ''Java is installed: Java 17''
   \<and> os_exists (sim_os install_fails) flutter_dir provisioned
   \<and> os_run (sim_os install_fails) flutter_version_cmd True provisioned
       = (Exited 0 [] [], provisioned)
   \<and> os_exists (sim_os install_fails) cmdline_tools provisioned
   \<and> os_run (sim_os install_fails) sdkmanager_version_cmd True provisioned
       = (Exited 0 [] [], provisioned)
   \<and> os_run (sim_os install_fails) license_cmd False provisioned = (Exited 0 [] [], provisioned)
   \<and> os_run (sim_os install_fails) install_cmd False provisioned
       = (Exited 1 [] ''Warning: Failed to find package'', provisioned)
   \<and> (1::int) \<noteq> 0
   \<and> run_setup (sim_os install_fails) (start provisioned) =
       (Inr False,
        \<lparr>world = provisioned,
         trace = [Spawn java_version_cmd True, Spawn flutter_version_cmd True,
                  Spawn sdkmanager_version_cmd True, Spawn license_cmd False,
                  Spawn install_cmd False],
         console = [Success ''Java is installed'', Success ''Flutter directory exists'',
                    Success ''Flutter is working correctly'',
                    Success ''Android SDK command line tools exist'',
                    Success ''Android SDK tools are working'',
                    Error ''Failed to install some SDK components'',
                    Error ''Setup failed at: Installing SDK components'']\<rparr>)
   \<and> run_steps Builder
        (builder_steps (sim_os install_fails) (step_ok ''Launcher icons fixed'') False)
        (start provisioned) =
       (Inr False,
        \<lparr>world = provisioned,
         trace = [Spawn java_version_cmd True, Spawn flutter_version_cmd True,
                  Spawn sdkmanager_version_cmd True, Spawn license_cmd False,
                  Spawn install_cmd False],
         console = [Success ''Java is installed: Java 17'', Success ''Flutter directory exists'',
                    Success ''Flutter is working'',
                    Success ''Android SDK command line tools exist'',
                    Success ''Android SDK tools are working'',
                    Error ''Failed to install some SDK components'',
                    Error ''Failed at step: Installing SDK components'']\<rparr>)
   \<and> install_sdk_components Builder (sim_os install_fails) (start provisioned) =
       (Inr False,
        \<lparr>world = provisioned,
         trace = [Spawn license_cmd False, Spawn install_cmd False],
         console = [Error ''Failed to install some SDK components'']\<rparr>)"
proof -
  have e: "os_exists (sim_os install_fails) java_home (world (start provisioned))"
    "os_exists (sim_os install_fails) flutter_dir provisioned"
    "os_exists (sim_os install_fails) cmdline_tools provisioned"
    by (simp_all add: sim_os_def start_def provisioned_def)
  have ne: "java_version_cmd \<noteq> install_cmd" "flutter_version_cmd \<noteq> install_cmd"
    "sdkmanager_version_cmd \<noteq> install_cmd" "license_cmd \<noteq> install_cmd"
    by (simp_all add: cmd_defs path_defs)
  have r0: "os_run (sim_os install_fails) java_version_cmd True (world (start provisioned))
              = (Exited 0 [] [], provisioned)"
    by (simp add: sim_os_def install_fails_def start_def ne)
  have r: "os_run (sim_os install_fails) flutter_version_cmd True provisioned
             = (Exited 0 [] [], provisioned)"
    "os_run (sim_os install_fails) sdkmanager_version_cmd True provisioned
       = (Exited 0 [] [], provisioned)"
    "os_run (sim_os install_fails) license_cmd False provisioned = (Exited 0 [] [], provisioned)"
    "os_run (sim_os install_fails) install_cmd False provisioned
       = (Exited 1 [] ''Warning: Failed to find package'', provisioned)"
    by (simp_all add: sim_os_def install_fails_def ne)
  have m: "java_installed_msg Builder [] = Inr ''Java is installed: Java 17''"
    by (simp add: java_installed_msg_def)
  have n: "(1::int) \<noteq> 0"
    by simp
  note t = install_failure_halts_pipeline
    [OF e(1) r0 m e(2) r(1) e(3) r(2) r(3) r(4) n,
     where fix_launcher_icons = "step_ok ''Launcher icons fixed''" and skip_clean = False
       and t = "start provisioned" and sc = Builder]
  have c1: "run_setup (sim_os install_fails) (start provisioned) =
       (Inr False,
        \<lparr>world = provisioned,
         trace = [Spawn java_version_cmd True, Spawn flutter_version_cmd True,
                  Spawn sdkmanager_version_cmd True, Spawn license_cmd False,
                  Spawn install_cmd False],
         console = [Success ''Java is installed'', Success ''Flutter directory exists'',
                    Success ''Flutter is working correctly'',
                    Success ''Android SDK command line tools exist'',
                    Success ''Android SDK tools are working'',
                    Error ''Failed to install some SDK components'',
                    Error ''Setup failed at: Installing SDK components'']\<rparr>)"
    using conjunct1 [OF t] by (simp add: start_def)
  have c2: "run_steps Builder
        (builder_steps (sim_os install_fails) (step_ok ''Launcher icons fixed'') False)
        (start provisioned) =
       (Inr False,
        \<lparr>world = provisioned,
         trace = [Spawn java_version_cmd True, Spawn flutter_version_cmd True,
                  Spawn sdkmanager_version_cmd True, Spawn license_cmd False,
                  Spawn install_cmd False],
         console = [Success ''Java is installed: Java 17'', Success ''Flutter directory exists'',
                    Success ''Flutter is working'',
                    Success ''Android SDK command line tools exist'',
                    Success ''Android SDK tools are working'',
                    Error ''Failed to install some SDK components'',
                    Error ''Failed at step: Installing SDK components'']\<rparr>)"
    using conjunct1 [OF conjunct2 [OF t]] by (simp add: start_def)
  have c3: "install_sdk_components Builder (sim_os install_fails) (start provisioned) =
       (Inr False,
        \<lparr>world = provisioned,
         trace = [Spawn license_cmd False, Spawn install_cmd False],
         console = [Error ''Failed to install some SDK components'']\<rparr>)"
    using conjunct2 [OF conjunct2 [OF t]] by (simp add: start_def print_defs)
  show ?thesis
    using e r0 r m n c1 c2 c3 by (intro conjI) assumption+
qed

text \<open>
  C2 as stated fails. On a machine with the whole toolchain in place whose batched
  installation exits 1, \<^verbatim>\<open>run_setup\<close> returns False after five commands: the two steps after
  \<^verbatim>\<open>Installing SDK components\<close> (the Flutter configuration and \<^verbatim>\<open>pub get\<close>) never run.
\<close>

theorem run_setup_aborts_on_install_failure:
  "run_setup (sim_os install_fails) (start provisioned) =
     (Inr False,
      \<lparr>world = provisioned,
       trace = [Spawn java_version_cmd True, Spawn flutter_version_cmd True,
                Spawn sdkmanager_version_cmd True, Spawn license_cmd False,
                Spawn install_cmd False],
       console = [Success ''Java is installed'', Success ''Flutter directory exists'',
                  Success ''Flutter is working correctly'',
                  Success ''Android SDK command line tools exist'',
                  Success ''Android SDK tools are working'',
                  Error ''Failed to install some SDK components'',
                  Error ''Setup failed at: Installing SDK components'']\<rparr>)"
  by (simp add: run_setup_def setup_steps_def step_defs run_command_def sim_os_def
      install_fails_def start_def provisioned_def print_defs msg_defs cmd_defs path_defs
      called_process_error_str_def join.simps)

section \<open>Properties of build_apk\<close>

lemma build_apk_tool_ok:
  assumes "os_run os (build_cmd sc bt) True (world s) = (Exited 0 out err, w')"
  shows "build_apk sc os bt s =
           Some (if os_exists os (apk_path_of bt) w' then
                   (case os_st_size os (apk_path_of bt) w' of
                      Inl m \<Rightarrow>
                        (Inl (Exn m),
                         s\<lparr>world := w', trace := trace s @ [Spawn (build_cmd sc bt) True]\<rparr>)
                    | Inr n \<Rightarrow>
                        (Inr (True, Some (apk_path_of bt)),
                         s\<lparr>world := w', trace := trace s @ [Spawn (build_cmd sc bt) True],
                           console := console s @
                             [Success ''APK built successfully!'',
                              Success (''Location: '' @ apk_path_of bt),
                              Success (''Size: '' @ py_fmt_mb os n @ '' MB'')]\<rparr>))
                 else
                   (Inr (False, None),
                    s\<lparr>world := w', trace := trace s @ [Spawn (build_cmd sc bt) True],
                      console := console s @ [Error ''APK file not found after build'']\<rparr>))"
  using assms
  by (subst build_apk.simps) (simp add: run_command_def print_defs split: sum.splits)

lemma build_apk_success_has_artifact:
  assumes "build_apk sc os bt s = Some r"
  shows "\<forall>p s'. r = (Inr (True, p), s') \<longrightarrow>
           (\<exists>b n. p = Some (apk_path_of b) \<and> (b = bt \<or> b = ''debug'')
                  \<and> os_exists os (apk_path_of b) (world s')
                  \<and> os_st_size os (apk_path_of b) (world s') = Inr n
                  \<and> (\<exists>c. console s' = c @ [Success (''Size: '' @ py_fmt_mb os n @ '' MB'')]))"
proof (rule build_apk.raw_induct
    [where P = "\<lambda>sc os bt s r. \<forall>p s'. r = (Inr (True, p), s') \<longrightarrow>
           (\<exists>b n. p = Some (apk_path_of b) \<and> (b = bt \<or> b = ''debug'')
                  \<and> os_exists os (apk_path_of b) (world s')
                  \<and> os_st_size os (apk_path_of b) (world s') = Inr n
                  \<and> (\<exists>c. console s' = c @ [Success (''Size: '' @ py_fmt_mb os n @ '' MB'')]))",
     OF _ assms], goal_cases)
  case (1 build_apk' sc os build_type s r)
  show ?case
  proof (cases "run_command os (build_cmd sc build_type) True True s")
    case (Pair a s1)
    show ?thesis
    proof (cases a)
      case (Inl e)
      with Pair 1(2) show ?thesis by auto
    next
      case (Inr t)
      obtain success out err where t: "t = (success, out, err)"
        by (cases t) auto
      show ?thesis
      proof (cases success)
        case True
        with Pair Inr t 1(2) show ?thesis
          by (auto simp: print_defs split: if_splits sum.splits)
      next
        case False
        show ?thesis
        proof (cases "minification_failed err")
          case True
          with Pair Inr t False 1(2)
          have "build_apk' sc os ''debug''
                  (print_warning ''R8 minification failed, trying debug build instead...''
                     (print_error ''Build failed'' s1)) = Some r"
            by simp
          from 1(1) [OF this] show ?thesis by blast
        next
          case F: False
          with Pair Inr t False 1(2) show ?thesis by auto
        qed
      qed
    qed
  qed
qed

text \<open>
  C6. On any machine where the build command of the variant exits 0, the result of
  \<^verbatim>\<open>build_apk\<close>, in either script, is decided by the artifact
  \<^verbatim>\<open>build/app/outputs/flutter-apk/app-<build_type>.apk\<close>: absent, the result is
  \<^verbatim>\<open>(False, None)\<close> with an error line; present, the result is True with the path, and
  the size read from the file is printed. And, on any machine and for any call, whenever
  \<^verbatim>\<open>build_apk\<close> returns True, the path it returns is the variant-named path (of the
  variant asked for, or of \<^verbatim>\<open>debug\<close>), the artifact at that path exists, and the last
  line printed is the size of that file.
\<close>

theorem build_apk_artifact_gate:
  "(os_run os (build_cmd sc bt) True (world s) = (Exited 0 out err, w') \<longrightarrow>
      build_apk sc os bt s =
        Some (if os_exists os (apk_path_of bt) w' then
                (case os_st_size os (apk_path_of bt) w' of
                   Inl m \<Rightarrow>
                     (Inl (Exn m),
                      s\<lparr>world := w', trace := trace s @ [Spawn (build_cmd sc bt) True]\<rparr>)
                 | Inr n \<Rightarrow>
                     (Inr (True, Some (apk_path_of bt)),
                      s\<lparr>world := w', trace := trace s @ [Spawn (build_cmd sc bt) True],
                        console := console s @
                          [Success ''APK built successfully!'',
                           Success (''Location: '' @ apk_path_of bt),
                           Success (''Size: '' @ py_fmt_mb os n @ '' MB'')]\<rparr>))
              else
                (Inr (False, None),
                 s\<lparr>world := w', trace := trace s @ [Spawn (build_cmd sc bt) True],
                   console := console s @ [Error ''APK file not found after build'']\<rparr>)))
   \<and> (build_apk sc' os' bt' t = Some (Inr (True, p), t') \<longrightarrow>
        (\<exists>b n. p = Some (apk_path_of b) \<and> (b = bt' \<or> b = ''debug'')
               \<and> os_exists os' (apk_path_of b) (world t')
               \<and> os_st_size os' (apk_path_of b) (world t') = Inr n
               \<and> (\<exists>c. console t' = c @ [Success (''Size: '' @ py_fmt_mb os' n @ '' MB'')])))"
proof (intro conjI impI)
  assume "os_run os (build_cmd sc bt) True (world s) = (Exited 0 out err, w')"
  then show "build_apk sc os bt s =
        Some (if os_exists os (apk_path_of bt) w' then
                (case os_st_size os (apk_path_of bt) w' of
                   Inl m \<Rightarrow>
                     (Inl (Exn m),
                      s\<lparr>world := w', trace := trace s @ [Spawn (build_cmd sc bt) True]\<rparr>)
                 | Inr n \<Rightarrow>
                     (Inr (True, Some (apk_path_of bt)),
                      s\<lparr>world := w', trace := trace s @ [Spawn (build_cmd sc bt) True],
                        console := console s @
                          [Success ''APK built successfully!'',
                           Success (''Location: '' @ apk_path_of bt),
                           Success (''Size: '' @ py_fmt_mb os n @ '' MB'')]\<rparr>))
              else
                (Inr (False, None),
                 s\<lparr>world := w', trace := trace s @ [Spawn (build_cmd sc bt) True],
                   console := console s @ [Error ''APK file not found after build'']\<rparr>))"
    by (rule build_apk_tool_ok)
next
  assume "build_apk sc' os' bt' t = Some (Inr (True, p), t')"
  from build_apk_success_has_artifact [OF this]
  show "\<exists>b n. p = Some (apk_path_of b) \<and> (b = bt' \<or> b = ''debug'')
               \<and> os_exists os' (apk_path_of b) (world t')
               \<and> os_st_size os' (apk_path_of b) (world t') = Inr n
               \<and> (\<exists>c. console t' = c @ [Success (''Size: '' @ py_fmt_mb os' n @ '' MB'')])"
    by blast
qed

theorem build_apk_artifact_gate_witness:
  "os_run (sim_os all_ok) (build_cmd Runner ''release'') True (world (start []))
     = (Exited 0 [] [], [])
   \<and> build_apk Runner (sim_os all_ok) ''release'' (start []) =
       Some (Inr (False, None),
             \<lparr>world = [], trace = [Spawn (build_cmd Runner ''release'') True],
              console = [Error ''APK file not found after build'']\<rparr>)
   \<and> os_run (sim_os all_ok) (build_cmd Builder ''release'') True
        (world (start [apk_path_of ''release'']))
     = (Exited 0 [] [], [apk_path_of ''release''])
   \<and> build_apk Builder (sim_os all_ok) ''release'' (start [apk_path_of ''release'']) =
       Some (Inr (True, Some (apk_path_of ''release'')),
             \<lparr>world = [apk_path_of ''release''],
              trace = [Spawn (build_cmd Builder ''release'') True],
              console = [Success ''APK built successfully!'',
                         Success (''Location: '' @ apk_path_of ''release''),
                         Success ''Size: 20.0 MB'']\<rparr>)
   \<and> os_run (sim_os all_ok) (build_cmd Builder ''release'') True (world (start []))
     = (Exited 0 [] [], [])
   \<and> build_apk Builder (sim_os all_ok) ''release'' (start []) =
       Some (Inr (False, None),
             \<lparr>world = [], trace = [Spawn (build_cmd Builder ''release'') True],
              console = [Error ''APK file not found after build'']\<rparr>)
   \<and> build_apk Builder (sim_os all_ok) ''debug'' (start [apk_path_of ''debug'']) =
       Some (Inr (True, Some (apk_path_of ''debug'')),
             \<lparr>world = [apk_path_of ''debug''],
              trace = [Spawn (build_cmd Builder ''debug'') True],
              console = [Success ''APK built successfully!'',
                         Success (''Location: '' @ apk_path_of ''debug''),
                         Success ''Size: 20.0 MB'']\<rparr>)
   \<and> build_apk Runner (sim_os all_ok) ''debug'' (start [apk_path_of ''debug'']) =
       Some (Inr (True, Some (apk_path_of ''debug'')),
             \<lparr>world = [apk_path_of ''debug''],
              trace = [Spawn (build_cmd Runner ''debug'') True],
              console = [Success ''APK built successfully!'',
                         Success (''Location: '' @ apk_path_of ''debug''),
                         Success ''Size: 20.0 MB'']\<rparr>)
   \<and> os_exists (sim_os all_ok) (apk_path_of ''debug'') [apk_path_of ''debug'']
   \<and> os_st_size (sim_os all_ok) (apk_path_of ''debug'') [apk_path_of ''debug''] = Inr 20971520"
proof -
  let ?T = "\<lambda>sc. \<lparr>world = [apk_path_of ''debug''],
              trace = [Spawn (build_cmd sc ''debug'') True],
              console = [Success ''APK built successfully!'',
                         Success (''Location: '' @ apk_path_of ''debug''),
                         Success ''Size: 20.0 MB'']\<rparr>"
  have run: "\<And>cmd w. os_run (sim_os all_ok) cmd True w = (Exited 0 [] [], w)"
    by (simp add: sim_os_def all_ok_def)
  have h1: "os_run (sim_os all_ok) (build_cmd Runner ''release'') True (world (start []))
              = (Exited 0 [] [], [])"
    by (simp add: run start_def)
  have h2: "os_run (sim_os all_ok) (build_cmd Builder ''release'') True
              (world (start [apk_path_of ''release'']))
            = (Exited 0 [] [], [apk_path_of ''release''])"
    by (simp add: run start_def)
  have h3: "os_run (sim_os all_ok) (build_cmd Builder ''release'') True (world (start []))
              = (Exited 0 [] [], [])"
    by (simp add: run start_def)
  have h4: "build_apk sc (sim_os all_ok) ''debug'' (start [apk_path_of ''debug'']) =
       Some (Inr (True, Some (apk_path_of ''debug'')), ?T sc)" for sc
    by (subst build_apk.simps)
       (simp add: run_command_def sim_os_def all_ok_def start_def print_defs show_nat.simps
          digit_def char_of_eq_iff)
  note a = build_apk_artifact_gate
    [where os = "sim_os all_ok" and sc = Runner and bt = "''release''" and s = "start []"
       and out = "[]" and err = "[]" and w' = "[]"
       and os' = "sim_os all_ok" and sc' = Builder and bt' = "''debug''"
       and t = "start [apk_path_of ''debug'']" and p = "Some (apk_path_of ''debug'')"
       and t' = "?T Builder"]
  note b = build_apk_artifact_gate
    [where os = "sim_os all_ok" and sc = Builder and bt = "''release''"
       and s = "start [apk_path_of ''release'']"
       and out = "[]" and err = "[]" and w' = "[apk_path_of ''release'']"
       and os' = "sim_os all_ok" and sc' = Runner and bt' = "''debug''"
       and t = "start [apk_path_of ''debug'']" and p = "Some (apk_path_of ''debug'')"
       and t' = "?T Runner"]
  note c = build_apk_artifact_gate
    [where os = "sim_os all_ok" and sc = Builder and bt = "''release''" and s = "start []"
       and out = "[]" and err = "[]" and w' = "[]"
       and os' = "sim_os all_ok" and sc' = Runner and bt' = "''debug''"
       and t = "start [apk_path_of ''debug'']" and p = "Some (apk_path_of ''debug'')"
       and t' = "?T Runner"]
  have c1: "build_apk Runner (sim_os all_ok) ''release'' (start []) =
       Some (Inr (False, None),
             \<lparr>world = [], trace = [Spawn (build_cmd Runner ''release'') True],
              console = [Error ''APK file not found after build'']\<rparr>)"
    using mp [OF conjunct1 [OF a] h1] by (simp add: sim_os_def start_def)
  have c2: "build_apk Builder (sim_os all_ok) ''release'' (start [apk_path_of ''release'']) =
       Some (Inr (True, Some (apk_path_of ''release'')),
             \<lparr>world = [apk_path_of ''release''],
              trace = [Spawn (build_cmd Builder ''release'') True],
              console = [Success ''APK built successfully!'',
                         Success (''Location: '' @ apk_path_of ''release''),
                         Success ''Size: 20.0 MB'']\<rparr>)"
    using mp [OF conjunct1 [OF b] h2]
    by (simp add: sim_os_def start_def show_nat.simps digit_def char_of_eq_iff)
  have c3: "build_apk Builder (sim_os all_ok) ''release'' (start []) =
       Some (Inr (False, None),
             \<lparr>world = [], trace = [Spawn (build_cmd Builder ''release'') True],
              console = [Error ''APK file not found after build'']\<rparr>)"
    using mp [OF conjunct1 [OF c] h3] by (simp add: sim_os_def start_def)
  have c4: "os_exists (sim_os all_ok) (apk_path_of ''debug'') [apk_path_of ''debug'']"
    using mp [OF conjunct2 [OF a] h4] mp [OF conjunct2 [OF b] h4] by (simp add: sim_os_def)
  have c5: "os_st_size (sim_os all_ok) (apk_path_of ''debug'') [apk_path_of ''debug'']
              = Inr 20971520"
    using mp [OF conjunct2 [OF a] h4] by (simp add: sim_os_def)
  show ?thesis
    using h1 h2 h3 h4 [of Builder] h4 [of Runner] c1 c2 c3 c4 c5 by (intro conjI) assumption+
qed

section \<open>Properties of strip and split\<close>

lemma join_nl: "join [nl] (h # ls) = h @ concat (map ((#) nl) ls)"
  by (induction ls arbitrary: h) auto

lemma split_on_ne: "split_on d s \<noteq> []"
  by (induction s) (auto split: list.splits)

lemma split_on_no_sep: "d \<notin> set h \<Longrightarrow> split_on d h = [h]"
  by (induction h) (auto split: list.splits)

lemma split_on_first: "d \<notin> set h \<Longrightarrow> split_on d (h @ d # rest) = h # split_on d rest"
  by (induction h) (auto split: list.splits simp: split_on_ne)

lemma split_on_lines:
  "nl \<notin> set h \<Longrightarrow> \<forall>l\<in>set ls. nl \<notin> set l \<Longrightarrow>
   split_on nl (h @ concat (map ((#) nl) ls)) = h # ls"
  by (induction ls arbitrary: h) (auto simp: split_on_no_sep split_on_first)

lemma isspace_nl: "isspace nl"
  by (simp add: isspace_def nl_def)

lemma rstrip_append:
  "rstrip (xs @ ys) = (if \<forall>c\<in>set ys. isspace c then rstrip xs else xs @ rstrip ys)"
  by (simp add: rstrip_def dropWhile_append)

lemma rstrip_decomp: "\<exists>ws. l = rstrip l @ ws \<and> (\<forall>c\<in>set ws. isspace c)"
proof -
  have "rev l = takeWhile isspace (rev l) @ dropWhile isspace (rev l)"
    by simp
  then have "l = rev (dropWhile isspace (rev l)) @ rev (takeWhile isspace (rev l))"
    by (metis rev_append rev_rev_ident)
  moreover have "\<forall>c\<in>set (rev (takeWhile isspace (rev l))). isspace c"
    by (auto dest: set_takeWhileD)
  ultimately show ?thesis
    unfolding rstrip_def by blast
qed

lemma rstrip_subset: "set (rstrip l) \<subseteq> set l"
  using rstrip_decomp [of l] by (metis set_append Un_upper1)

lemma rstrip_blank: "(\<forall>c\<in>set (rstrip l). isspace c) = (\<forall>c\<in>set l. isspace c)"
  using rstrip_decomp [of l] by (metis Un_iff set_append)

lemma rstrip_Nil: "(rstrip l = []) = (\<forall>c\<in>set l. isspace c)"
  by (simp add: rstrip_def dropWhile_eq_Nil_conv)

lemma lstrip_blank: "(\<forall>c\<in>set (lstrip l). isspace c) = (\<forall>c\<in>set l. isspace c)"
proof -
  have "l = takeWhile isspace l @ lstrip l"
    by (simp add: lstrip_def)
  moreover have "\<forall>c\<in>set (takeWhile isspace l). isspace c"
    by (auto dest: set_takeWhileD)
  ultimately show ?thesis
    by (metis Un_iff set_append)
qed

lemma strip_Nil: "(strip l = []) = (\<forall>c\<in>set l. isspace c)"
  by (simp add: strip_def rstrip_Nil lstrip_blank)

lemma startswith_single: "startswith l [c] = (l \<noteq> [] \<and> hd l = c)"
  by (cases l) auto

lemma rstrip_startswith:
  assumes "\<not> (\<forall>c\<in>set l. isspace c)"
  shows "startswith (rstrip l) [c] = startswith l [c]"
proof -
  obtain ws where ws: "l = rstrip l @ ws"
    using rstrip_decomp by blast
  have ne: "rstrip l \<noteq> []"
    using assms by (simp add: rstrip_Nil)
  then have "hd l = hd (rstrip l)"
    using ws by (metis hd_append2)
  with ne show ?thesis
    using ws by (auto simp: startswith_single)
qed

lemma rstrip_lines:
  assumes "\<not> (\<forall>c\<in>set h. isspace c)" and "\<forall>l\<in>set ls. nl \<notin> set l"
  shows "\<exists>h' ls'. rstrip (h @ concat (map ((#) nl) ls)) = h' @ concat (map ((#) nl) ls')
           \<and> set h' \<subseteq> set h \<and> (\<forall>l\<in>set ls'. nl \<notin> set l)
           \<and> length (filter (\<lambda>line. strip line \<noteq> [] \<and> \<not> startswith line ''*'') ls')
             = length (filter (\<lambda>line. strip line \<noteq> [] \<and> \<not> startswith line ''*'') ls)"
  using assms(2)
proof (induction ls rule: rev_induct)
  case Nil
  have "rstrip h = rstrip h @ concat (map ((#) nl) [])"
    by simp
  then show ?case
    using rstrip_subset [of h]
    by (metis append_Nil2 concat.simps(1) empty_iff list.map(1) list.set(1))
next
  case (snoc l ls)
  then obtain h' ls' where IH:
    "rstrip (h @ concat (map ((#) nl) ls)) = h' @ concat (map ((#) nl) ls')"
    "set h' \<subseteq> set h" "\<forall>l\<in>set ls'. nl \<notin> set l"
    "length (filter (\<lambda>line. strip line \<noteq> [] \<and> \<not> startswith line ''*'') ls')
       = length (filter (\<lambda>line. strip line \<noteq> [] \<and> \<not> startswith line ''*'') ls)"
    by auto
  have l: "nl \<notin> set l"
    using snoc.prems by simp
  have app: "h @ concat (map ((#) nl) (ls @ [l])) = (h @ concat (map ((#) nl) ls)) @ (nl # l)"
    by simp
  show ?case
  proof (cases "\<forall>c\<in>set l. isspace c")
    case True
    then have "rstrip ((h @ concat (map ((#) nl) ls)) @ (nl # l))
                 = rstrip (h @ concat (map ((#) nl) ls))"
      using isspace_nl by (subst rstrip_append) simp
    then have "rstrip (h @ concat (map ((#) nl) (ls @ [l]))) = h' @ concat (map ((#) nl) ls')"
      using IH(1) app by simp
    moreover have "strip l = []"
      using True by (simp add: strip_Nil)
    ultimately show ?thesis
      using IH(2,3,4) by (intro exI [of _ h'] exI [of _ ls']) simp
  next
    case False
    have "rstrip (nl # l) = nl # rstrip l"
      using rstrip_append [of "[nl]" l] False by auto
    moreover have "rstrip ((h @ concat (map ((#) nl) ls)) @ (nl # l))
                 = (h @ concat (map ((#) nl) ls)) @ rstrip (nl # l)"
      using False by (subst rstrip_append) auto
    ultimately have "rstrip (h @ concat (map ((#) nl) (ls @ [l])))
                 = h @ concat (map ((#) nl) (ls @ [rstrip l]))"
      using app by simp
    moreover have "nl \<notin> set (rstrip l)"
      using l rstrip_subset [of l] by blast
    moreover have "(strip (rstrip l) \<noteq> [] \<and> \<not> startswith (rstrip l) ''*'')
                     = (strip l \<noteq> [] \<and> \<not> startswith l ''*'')"
      using False by (simp add: strip_Nil rstrip_blank rstrip_startswith)
    ultimately show ?thesis
      using snoc.prems
      by (intro exI [of _ h] exI [of _ "ls @ [rstrip l]"]) simp
  qed
qed

section \<open>Properties of the device operations\<close>

lemma device_lines_count:
  assumes "nl \<notin> set h" and "\<not> (\<forall>c\<in>set h. isspace c)" and "\<forall>l\<in>set ls. nl \<notin> set l"
  shows "length (device_lines (join [nl] (h # ls)))
           = length (filter (\<lambda>line. strip line \<noteq> [] \<and> \<not> startswith line ''*'') ls)"
proof -
  obtain c where c: "c \<in> set h" "\<not> isspace c"
    using assms(2) by blast
  have l1: "lstrip (h @ concat (map ((#) nl) ls)) = lstrip h @ concat (map ((#) nl) ls)"
    unfolding lstrip_def using c by (rule dropWhile_append1)
  have nb: "\<not> (\<forall>c\<in>set (lstrip h). isspace c)"
    using assms(2) by (simp add: lstrip_blank)
  have sub: "set (lstrip h) \<subseteq> set h"
    unfolding lstrip_def by (auto dest: set_dropWhileD)
  obtain h' ls' where r:
    "rstrip (lstrip h @ concat (map ((#) nl) ls)) = h' @ concat (map ((#) nl) ls')"
    "set h' \<subseteq> set (lstrip h)" "\<forall>l\<in>set ls'. nl \<notin> set l"
    "length (filter (\<lambda>line. strip line \<noteq> [] \<and> \<not> startswith line ''*'') ls')
       = length (filter (\<lambda>line. strip line \<noteq> [] \<and> \<not> startswith line ''*'') ls)"
    using rstrip_lines [OF nb assms(3)] by blast
  have "nl \<notin> set h'"
    using r(2) sub assms(1) by blast
  then have "split_on nl (strip (join [nl] (h # ls))) = h' # ls'"
    using r(1,3) by (simp add: strip_def join_nl l1 split_on_lines)
  then show ?thesis
    using r(4) by (simp add: device_lines_def)
qed

lemma device_lines_two:
  "device_lines listing_two = [''emulator-5554 device product:sdk'', ''R58M123 device usb:1-1'']"
  by (simp add: device_lines_def listing_two_def strip_defs)

lemma device_lines_none: "device_lines listing_none = []"
  by (simp add: device_lines_def listing_none_def strip_defs)

lemma device_cmd_distinct:
  "adb_install_cmd p \<noteq> devices_cmd"
  "flutter_run_cmd \<noteq> devices_cmd"
  "flutter_run_cmd \<noteq> adb_install_cmd (apk_path_of ''debug'')"
  by (simp_all add: adb_install_cmd_def devices_cmd_def flutter_run_cmd_def path_defs)

lemma listing_ne: "listing_two \<noteq> []" "listing_none \<noteq> []"
  by (simp_all add: listing_two_def listing_none_def)

lemma check_no_devices:
  "check_connected_devices (sim_os no_devices) (start []) =
     (Inr (False, 0),
      \<lparr>world = [], trace = [Spawn devices_cmd True], console = [Warning ''No devices found'']\<rparr>)"
  by (simp add: check_connected_devices_def run_command_def sim_os_def no_devices_def
      device_lines_none listing_ne start_def print_defs)

lemma check_two_devices:
  "check_connected_devices (sim_os two_devices) (start []) =
     (Inr (True, 2),
      \<lparr>world = [], trace = [Spawn devices_cmd True],
       console = [Success ''Found 2 connected device(s):'']\<rparr>)"
  by (simp add: check_connected_devices_def run_command_def sim_os_def two_devices_def
      device_lines_two listing_ne start_def print_defs show_nat.simps digit_def char_of_eq_iff)

lemma check_connected_devices_trace:
  "fst (check_connected_devices os s) = Inr r \<Longrightarrow>
   trace (snd (check_connected_devices os s)) = trace s @ [Spawn devices_cmd True]"
  by (auto simp: check_connected_devices_def run_command_def Let_def print_defs
      split: prod.splits proc.splits if_splits)

text \<open>
  C8. When \<^verbatim>\<open>check_connected_devices\<close> reports no device, \<^verbatim>\<open>install_apk\<close> and \<^verbatim>\<open>run_app\<close>
  return False with their no-device error, and the only command spawned is the device
  listing: \<^verbatim>\<open>adb install\<close> and \<^verbatim>\<open>flutter run\<close> are not invoked. When it reports a device,
  the result is the success flag of the install or run command.
\<close>

theorem device_gate:
  assumes "fst (check_connected_devices os s) = Inr (False, n)"
    and "check_connected_devices os' t = (Inr (True, k), t')"
  shows "install_apk os apk_path s =
           (Inr False,
            print_error ''No device connected for installation''
              (snd (check_connected_devices os s)))
         \<and> run_app os s =
           (Inr False,
            print_error ''No devices connected. Cannot run app.''
              (snd (check_connected_devices os s)))
         \<and> trace (snd (install_apk os apk_path s)) = trace s @ [Spawn devices_cmd True]
         \<and> trace (snd (run_app os s)) = trace s @ [Spawn devices_cmd True]
         \<and> install_apk os' apk_path t =
           (case run_command os' (adb_install_cmd apk_path) True True t' of
              (Inl e, u) \<Rightarrow> (Inl e, u)
            | (Inr (success, out, err), u) \<Rightarrow>
                (Inr success,
                 if success then print_success ''APK installed successfully!'' u
                 else print_error (''Installation failed: '' @ err) u))
         \<and> run_app os' t =
           (case run_command os' flutter_run_cmd False False t' of
              (Inl e, u) \<Rightarrow> (Inl e, u)
            | (Inr (success, out, err), u) \<Rightarrow> (Inr success, u))"
proof -
  obtain s' where s': "check_connected_devices os s = (Inr (False, n), s')"
    using assms(1) by (cases "check_connected_devices os s") auto
  have tr: "trace s' = trace s @ [Spawn devices_cmd True]"
    using check_connected_devices_trace [OF assms(1)] s' by simp
  show ?thesis
    using s' tr assms(2)
    by (auto simp: install_apk_def run_app_def print_defs split: prod.splits sum.splits)
qed

theorem device_gate_witness:
  "fst (check_connected_devices (sim_os no_devices) (start [])) = Inr (False, 0)
   \<and> check_connected_devices (sim_os two_devices) (start []) =
       (Inr (True, 2),
        \<lparr>world = [], trace = [Spawn devices_cmd True],
         console = [Success ''Found 2 connected device(s):'']\<rparr>)
   \<and> install_apk (sim_os no_devices) (apk_path_of ''debug'') (start []) =
       (Inr False,
        \<lparr>world = [], trace = [Spawn devices_cmd True],
         console = [Warning ''No devices found'',
                    Error ''No device connected for installation'']\<rparr>)
   \<and> run_app (sim_os no_devices) (start []) =
       (Inr False,
        \<lparr>world = [], trace = [Spawn devices_cmd True],
         console = [Warning ''No devices found'',
                    Error ''No devices connected. Cannot run app.'']\<rparr>)
   \<and> install_apk (sim_os two_devices) (apk_path_of ''debug'') (start []) =
       (Inr False,
        \<lparr>world = [],
         trace = [Spawn devices_cmd True, Spawn (adb_install_cmd (apk_path_of ''debug'')) True],
         console = [Success ''Found 2 connected device(s):'',
                    Error (''Installation failed: ''
                           @ called_process_error_str (sim_os two_devices)
                               (adb_install_cmd (apk_path_of ''debug'')) 1)]\<rparr>)
   \<and> run_app (sim_os two_devices) (start []) =
       (Inr True,
        \<lparr>world = [], trace = [Spawn devices_cmd True, Spawn flutter_run_cmd False],
         console = [Success ''Found 2 connected device(s):'']\<rparr>)"
proof -
  have h1: "fst (check_connected_devices (sim_os no_devices) (start [])) = Inr (False, 0)"
    by (simp add: check_no_devices)
  note t = device_gate [OF h1 check_two_devices, of "apk_path_of ''debug''"]
  have c1: "install_apk (sim_os no_devices) (apk_path_of ''debug'') (start []) =
       (Inr False,
        \<lparr>world = [], trace = [Spawn devices_cmd True],
         console = [Warning ''No devices found'',
                    Error ''No device connected for installation'']\<rparr>)"
    using t by (simp add: check_no_devices print_defs)
  have c2: "run_app (sim_os no_devices) (start []) =
       (Inr False,
        \<lparr>world = [], trace = [Spawn devices_cmd True],
         console = [Warning ''No devices found'',
                    Error ''No devices connected. Cannot run app.'']\<rparr>)"
    using t by (simp add: check_no_devices print_defs)
  have c3: "install_apk (sim_os two_devices) (apk_path_of ''debug'') (start []) =
       (Inr False,
        \<lparr>world = [],
         trace = [Spawn devices_cmd True, Spawn (adb_install_cmd (apk_path_of ''debug'')) True],
         console = [Success ''Found 2 connected device(s):'',
                    Error (''Installation failed: ''
                           @ called_process_error_str (sim_os two_devices)
                               (adb_install_cmd (apk_path_of ''debug'')) 1)]\<rparr>)"
    using conjunct1 [OF conjunct2 [OF conjunct2 [OF conjunct2 [OF conjunct2 [OF t]]]]]
    by (simp add: run_command_def sim_os_def two_devices_def device_cmd_distinct print_defs)
  have c4: "run_app (sim_os two_devices) (start []) =
       (Inr True,
        \<lparr>world = [], trace = [Spawn devices_cmd True, Spawn flutter_run_cmd False],
         console = [Success ''Found 2 connected device(s):'']\<rparr>)"
    using conjunct2 [OF conjunct2 [OF conjunct2 [OF conjunct2 [OF conjunct2 [OF t]]]]]
    by (simp add: run_command_def sim_os_def two_devices_def device_cmd_distinct)
  show ?thesis
    using h1 check_two_devices c1 c2 c3 c4 by (intro conjI) assumption+
qed

text \<open>
  C9. For an output made of a header line (not blank) followed by any lines, the device
  count is the number of lines after the header that are not blank and do not start with
  an asterisk; where every line after the header is empty or not blank, these are the
  non-empty lines without an asterisk. No device is the result \<^verbatim>\<open>(False, 0)\<close> with a
  warning: a value, not an exception.
\<close>

theorem device_parsing:
  assumes "nl \<notin> set header" and "\<exists>c\<in>set header. \<not> isspace c"
    and "\<forall>l\<in>set ls. nl \<notin> set l"
    and "os_run os devices_cmd True (world s) = (Exited 0 (join [nl] (header # ls)) err, w')"
  shows "fst (check_connected_devices os s) =
           Inr (0 < length (filter (\<lambda>l. strip l \<noteq> [] \<and> \<not> startswith l ''*'') ls),
                length (filter (\<lambda>l. strip l \<noteq> [] \<and> \<not> startswith l ''*'') ls))
         \<and> (length (filter (\<lambda>l. strip l \<noteq> [] \<and> \<not> startswith l ''*'') ls) = 0 \<longrightarrow>
              snd (check_connected_devices os s) =
                print_warning ''No devices found''
                  (s\<lparr>world := w', trace := trace s @ [Spawn devices_cmd True]\<rparr>))
         \<and> ((\<forall>l\<in>set ls. l = [] \<or> strip l \<noteq> []) \<longrightarrow>
              filter (\<lambda>l. strip l \<noteq> [] \<and> \<not> startswith l ''*'') ls
                = filter (\<lambda>l. l \<noteq> [] \<and> \<not> startswith l ''*'') ls)"
proof -
  let ?n = "length (filter (\<lambda>l. strip l \<noteq> [] \<and> \<not> startswith l ''*'') ls)"
  have nb: "\<not> (\<forall>c\<in>set header. isspace c)"
    using assms(2) by blast
  have cnt: "length (device_lines (join [nl] (header # ls))) = ?n"
    using assms(1) nb assms(3) by (rule device_lines_count)
  have ne: "join [nl] (header # ls) \<noteq> []"
    using assms(2) by (auto simp: join_nl)
  have run: "run_command os devices_cmd True True s =
               (Inr (True, join [nl] (header # ls), err),
                s\<lparr>world := w', trace := trace s @ [Spawn devices_cmd True]\<rparr>)"
    using assms(4) by (simp add: run_command_def)
  have a: "fst (check_connected_devices os s) = Inr (0 < ?n, ?n)"
    using cnt by (auto simp: check_connected_devices_def run ne Let_def)
  have b: "?n = 0 \<longrightarrow>
             snd (check_connected_devices os s) =
               print_warning ''No devices found''
                 (s\<lparr>world := w', trace := trace s @ [Spawn devices_cmd True]\<rparr>)"
    using cnt by (auto simp: check_connected_devices_def run ne Let_def)
  have c: "(\<forall>l\<in>set ls. l = [] \<or> strip l \<noteq> []) \<longrightarrow>
              filter (\<lambda>l. strip l \<noteq> [] \<and> \<not> startswith l ''*'') ls
                = filter (\<lambda>l. l \<noteq> [] \<and> \<not> startswith l ''*'') ls"
    by (auto intro!: filter_cong simp: strip_def rstrip_def lstrip_def)
  show ?thesis
    using a b c by blast
qed

theorem device_parsing_witness:
  "nl \<notin> set ''List of devices attached''
   \<and> list_ex (\<lambda>c. \<not> isspace c) ''List of devices attached''
   \<and> list_all (\<lambda>l. nl \<notin> set l)
        [''emulator-5554 device product:sdk'', ''* daemon started successfully'',
         ''R58M123 device usb:1-1'', []]
   \<and> os_run (sim_os two_devices) devices_cmd True (world (start [])) =
       (Exited 0
          (join [nl] [''List of devices attached'', ''emulator-5554 device product:sdk'',
                      ''* daemon started successfully'', ''R58M123 device usb:1-1'', []])
          [], [])
   \<and> fst (check_connected_devices (sim_os two_devices) (start [])) = Inr (True, 2)
   \<and> os_run (sim_os (\<lambda>cmd. Exited 0 (join [nl] [''List of devices attached'']) []))
        devices_cmd True (world (start [])) =
       (Exited 0 (join [nl] [''List of devices attached'']) [], [])
   \<and> check_connected_devices
        (sim_os (\<lambda>cmd. Exited 0 (join [nl] [''List of devices attached'']) [])) (start []) =
       (Inr (False, 0),
        \<lparr>world = [], trace = [Spawn devices_cmd True],
         console = [Warning ''No devices found'']\<rparr>)"
proof -
  let ?h = "''List of devices attached''"
  let ?ls = "[''emulator-5554 device product:sdk'', ''* daemon started successfully'',
              ''R58M123 device usb:1-1'', []]"
  let ?os = "sim_os (\<lambda>cmd. Exited 0 (join [nl] [?h]) [])"
  have h1: "nl \<notin> set ?h"
    by (simp add: nl_def)
  have h2: "\<exists>c\<in>set ?h. \<not> isspace c"
    by (simp add: isspace_def)
  have h3: "\<forall>l\<in>set ?ls. nl \<notin> set l"
    by (simp add: nl_def)
  have h4: "os_run (sim_os two_devices) devices_cmd True (world (start [])) =
              (Exited 0 (join [nl] (?h # ?ls)) [], [])"
    by (simp add: sim_os_def two_devices_def listing_two_def start_def)
  have g3: "\<forall>l\<in>set ([]::string list). nl \<notin> set l"
    by simp
  have g4: "os_run ?os devices_cmd True (world (start [])) = (Exited 0 (join [nl] (?h # [])) [], [])"
    by (simp add: sim_os_def start_def)
  note t = device_parsing [OF h1 h2 h3 h4]
  note u = device_parsing [OF h1 h2 g3 g4]
  have c1: "fst (check_connected_devices (sim_os two_devices) (start [])) = Inr (True, 2)"
    using t by (simp add: strip_defs)
  have c2: "check_connected_devices ?os (start []) =
       (Inr (False, 0),
        \<lparr>world = [], trace = [Spawn devices_cmd True],
         console = [Warning ''No devices found'']\<rparr>)"
    using u by (simp add: prod_eq_iff start_def print_defs)
  have h2': "list_ex (\<lambda>c. \<not> isspace c) ?h"
    using h2 by (simp only: list_ex_iff)
  have h3': "list_all (\<lambda>l. nl \<notin> set l) ?ls"
    using h3 by (simp only: list_all_iff)
  show ?thesis
    using h1 h2' h3' h4 g4 c1 c2 by (intro conjI) assumption+
qed

section \<open>The fallback of build_apk\<close>

text \<open>
  The text that \<^verbatim>\<open>build_apk\<close> searches for \<^verbatim>\<open>R8\<close> and \<^verbatim>\<open>minify\<close> is what \<^verbatim>\<open>run_command\<close>
  returned as stderr. After a failed build that is the text of the exception: the word
  \<^verbatim>\<open>Command\<close>, the quoted build command, and the exit status or the signal. The lemmas
  below show that this text holds neither marker, so the test before the recursive call
  is never passed.
\<close>

lemma startswith_set: "startswith s p \<Longrightarrow> set p \<subseteq> set s"
  by (induction s p rule: startswith.induct) auto

lemma is_in_set: "is_in p s \<Longrightarrow> set p \<subseteq> set s"
proof (induction s)
  case Nil
  then show ?case by simp
next
  case (Cons c cs)
  from Cons.prems have "startswith (c # cs) p \<or> is_in p cs"
    by simp
  then show ?case
  proof
    assume "startswith (c # cs) p"
    then show ?thesis by (rule startswith_set)
  next
    assume "is_in p cs"
    then have "set p \<subseteq> set cs" by (rule Cons.IH)
    then show ?thesis by auto
  qed
qed

lemma startswith_append_last:
  "a \<noteq> [] \<Longrightarrow> last a \<notin> set p \<Longrightarrow> startswith (a @ b) p \<Longrightarrow> startswith a p"
proof (induction a arbitrary: p)
  case Nil
  then show ?case by simp
next
  case (Cons c cs)
  show ?case
  proof (cases p)
    case Nil
    then show ?thesis by simp
  next
    case (Cons q qs)
    with Cons.prems Cons.IH [of qs] show ?thesis
      by (cases "cs = []") auto
  qed
qed

lemma startswith_append_hd:
  "b \<noteq> [] \<Longrightarrow> hd b \<notin> set p \<Longrightarrow> startswith (a @ b) p \<Longrightarrow> startswith a p"
proof (induction a arbitrary: p)
  case Nil
  then show ?case by (cases b; cases p) auto
next
  case (Cons c cs)
  then show ?case by (cases p) auto
qed

lemma is_in_append_last:
  "a \<noteq> [] \<Longrightarrow> last a \<notin> set p \<Longrightarrow> is_in p (a @ b) \<Longrightarrow> is_in p a \<or> is_in p b"
proof (induction a)
  case Nil
  then show ?case by simp
next
  case (Cons c cs)
  show ?case
  proof (cases "startswith ((c # cs) @ b) p")
    case True
    then have "startswith (c # cs) p"
      using Cons.prems(1,2) by (rule startswith_append_last [rotated 2])
    then show ?thesis by simp
  next
    case False
    with Cons.prems(3) have rest: "is_in p (cs @ b)"
      by simp
    show ?thesis
    proof (cases "cs = []")
      case True
      with rest show ?thesis by simp
    next
      case F: False
      with Cons.prems(2) have "last cs \<notin> set p" by simp
      with Cons.IH F rest show ?thesis by auto
    qed
  qed
qed

lemma is_in_append_hd:
  "b \<noteq> [] \<Longrightarrow> hd b \<notin> set p \<Longrightarrow> is_in p (a @ b) \<Longrightarrow> is_in p a \<or> is_in p b"
proof (induction a)
  case Nil
  then show ?case by simp
next
  case (Cons c cs)
  show ?case
  proof (cases "startswith ((c # cs) @ b) p")
    case True
    then have "startswith (c # cs) p"
      using Cons.prems(1,2) by (rule startswith_append_hd [rotated 2])
    then show ?thesis by simp
  next
    case False
    with Cons.prems(3) have "is_in p (cs @ b)"
      by simp
    with Cons.IH Cons.prems(1,2) show ?thesis by auto
  qed
qed

lemma marker_free_append_last:
  assumes "a \<noteq> []" and "last a \<notin> set ''R8''" and "lower_char (last a) \<notin> set ''minify''"
    and "\<not> minification_failed a" and "\<not> minification_failed b"
  shows "\<not> minification_failed (a @ b)"
proof -
  have "\<not> is_in ''R8'' (a @ b)"
    using is_in_append_last [OF assms(1,2)] assms(4,5) by (auto simp: minification_failed_def)
  moreover have "lower a \<noteq> []" "last (lower a) \<notin> set ''minify''"
    using assms(1,3) by (simp_all add: lower_def last_map)
  then have "\<not> is_in ''minify'' (lower a @ lower b)"
    using is_in_append_last [of "lower a" "''minify''" "lower b"] assms(4,5)
    by (auto simp: minification_failed_def)
  ultimately show ?thesis
    by (simp add: minification_failed_def lower_def)
qed

lemma marker_free_append_hd:
  assumes "b \<noteq> []" and "hd b \<notin> set ''R8''" and "lower_char (hd b) \<notin> set ''minify''"
    and "\<not> minification_failed a" and "\<not> minification_failed b"
  shows "\<not> minification_failed (a @ b)"
proof -
  have "\<not> is_in ''R8'' (a @ b)"
    using is_in_append_hd [OF assms(1,2)] assms(4,5) by (auto simp: minification_failed_def)
  moreover have "lower b \<noteq> []" "hd (lower b) \<notin> set ''minify''"
    using assms(1,3) by (simp_all add: lower_def hd_map)
  then have "\<not> is_in ''minify'' (lower a @ lower b)"
    using is_in_append_hd [of "lower b" "''minify''" "lower a"] assms(4,5)
    by (auto simp: minification_failed_def)
  ultimately show ?thesis
    by (simp add: minification_failed_def lower_def)
qed

lemma digit_cases: "n < 10 \<Longrightarrow> digit n \<in> set ''0123456789''"
  unfolding digit_def by (rule nth_mem) simp

lemma show_nat_digits: "set (show_nat n) \<subseteq> set ''0123456789''"
proof (induction n rule: show_nat.induct)
  case (1 n)
  show ?case
  proof (cases "n < 10")
    case True
    then show ?thesis
      using digit_cases [of n] by (subst show_nat.simps) simp
  next
    case False
    then have "n mod 10 < 10" by simp
    with False 1 show ?thesis
      using digit_cases [of "n mod 10"] by (subst show_nat.simps) simp
  qed
qed

lemma show_nat_ne: "show_nat n \<noteq> []"
  by (subst show_nat.simps) simp

lemma lower_char_space: "lower_char CHR '' '' = CHR '' ''" "lower_char sq = sq"
  "lower_char CHR ''.'' = CHR ''.''"
  by (simp_all add: lower_char_def sq_def)

lemma lower_char_y:
  assumes "lower_char c = CHR ''y''"
  shows "c = CHR ''y'' \<or> c = CHR ''Y''"
proof (cases "(65 \<le> (of_char c :: nat) \<and> (of_char c :: nat) \<le> 90)
              \<or> (192 \<le> (of_char c :: nat) \<and> (of_char c :: nat) \<le> 222
                  \<and> (of_char c :: nat) \<noteq> 215)")
  case True
  then have "char_of (of_char c + 32 :: nat) = CHR ''y''"
    using assms by (auto simp: lower_char_def Let_def)
  then have "take_bit 8 (of_char c + 32 :: nat) = 121"
    by (simp add: char_of_eq_iff)
  moreover have "(of_char c + 32 :: nat) < 2 ^ 8"
    using True by auto
  ultimately have "(of_char c :: nat) = 89"
    by (simp add: take_bit_nat_eq_self)
  then have "(of_char c :: nat) = of_char (CHR ''Y'')"
    by simp
  then show ?thesis
    by (simp only: of_char_eq_iff) simp
next
  case False
  then have "lower_char c = c"
    by (auto simp: lower_char_def Let_def)
  with assms show ?thesis by simp
qed

lemma no_R_no_R8: "CHR ''R'' \<notin> set x \<Longrightarrow> \<not> is_in ''R8'' x"
  using is_in_set [of "''R8''" x] by auto

lemma no_y_no_minify:
  assumes "CHR ''y'' \<notin> set x" and "CHR ''Y'' \<notin> set x"
  shows "\<not> is_in ''minify'' (lower x)"
proof
  assume "is_in ''minify'' (lower x)"
  then have "CHR ''y'' \<in> set (lower x)"
    using is_in_set [of "''minify''" "lower x"] by auto
  then obtain c where "c \<in> set x" "lower_char c = CHR ''y''"
    by (auto simp: lower_def)
  with assms show False
    using lower_char_y [of c] by auto
qed

lemma piece_marker_free:
  "CHR ''R'' \<notin> set x \<Longrightarrow> CHR ''y'' \<notin> set x \<Longrightarrow> CHR ''Y'' \<notin> set x \<Longrightarrow>
   \<not> minification_failed x"
  by (simp add: minification_failed_def no_R_no_R8 no_y_no_minify)

lemma digits_marker_free:
  assumes "set d \<subseteq> set ''0123456789''"
  shows "\<not> minification_failed (d @ ''.'')"
proof (rule piece_marker_free)
  show "CHR ''R'' \<notin> set (d @ ''.'')" "CHR ''y'' \<notin> set (d @ ''.'')" "CHR ''Y'' \<notin> set (d @ ''.'')"
    using assms by auto
qed

lemma build_cmd_marker_free: "\<not> minification_failed (build_cmd sc bt)"
proof -
  have R8: "\<not> is_in ''R8'' (build_cmd sc bt)"
    by (cases sc; cases "bt = ''release''") (simp_all add: build_cmd_def path_defs)
  have y: "CHR ''y'' \<notin> set (build_cmd sc bt)" "CHR ''Y'' \<notin> set (build_cmd sc bt)"
    by (cases sc; cases "bt = ''release''"; simp add: build_cmd_def path_defs)+
  show ?thesis
    by (simp add: minification_failed_def R8 no_y_no_minify y)
qed

lemma sq_marker_free: "\<not> minification_failed [sq]"
  by (simp add: piece_marker_free sq_def)

lemma quoted_command_marker_free:
  assumes "\<not> minification_failed suffix"
  shows "\<not> minification_failed (''Command '' @ [sq] @ build_cmd sc bt @ [sq] @ suffix)"
proof -
  have cf: "\<not> minification_failed ''Command ''"
    by (simp add: piece_marker_free)
  have a: "\<not> minification_failed ([sq] @ suffix)"
    by (rule marker_free_append_last [OF _ _ _ sq_marker_free assms])
       (simp_all add: lower_char_def sq_def)
  have b: "\<not> minification_failed (build_cmd sc bt @ [sq] @ suffix)"
    by (rule marker_free_append_hd [OF _ _ _ build_cmd_marker_free a])
       (simp_all add: lower_char_def sq_def)
  have c: "\<not> minification_failed ([sq] @ build_cmd sc bt @ [sq] @ suffix)"
    by (rule marker_free_append_last [OF _ _ _ sq_marker_free b])
       (simp_all add: lower_char_def sq_def)
  show ?thesis
    by (rule marker_free_append_last [OF _ _ _ cf c]) (simp_all add: lower_char_def sq_def)
qed

lemma failure_text_marker_free:
  assumes "\<forall>n r. py_signal_repr os n = Some r \<longrightarrow> \<not> minification_failed r"
  shows "\<not> minification_failed (called_process_error_str os (build_cmd sc bt) rc)"
proof (cases "rc < 0")
  case False
  have d: "\<not> minification_failed (show_int rc @ ''.'')"
    using False show_nat_digits by (simp add: show_int_def digits_marker_free)
  have p: "\<not> minification_failed '' returned non-zero exit status ''"
    by (simp add: piece_marker_free)
  have "\<not> minification_failed ('' returned non-zero exit status '' @ show_int rc @ ''.'')"
    by (rule marker_free_append_last [OF _ _ _ p d]) (simp_all add: lower_char_def sq_def)
  then have "\<not> minification_failed
               (''Command '' @ [sq] @ build_cmd sc bt @ [sq]
                  @ '' returned non-zero exit status '' @ show_int rc @ ''.'')"
    by (rule quoted_command_marker_free)
  with False show ?thesis
    by (simp add: called_process_error_str_def)
next
  case True
  show ?thesis
  proof (cases "py_signal_repr os (nat (- rc))")
    case None
    have d: "\<not> minification_failed (show_nat (nat (- rc)) @ ''.'')"
      using show_nat_digits by (simp add: digits_marker_free)
    have p: "\<not> minification_failed '' died with unknown signal ''"
      by (simp add: piece_marker_free)
    have "\<not> minification_failed
            ('' died with unknown signal '' @ show_nat (nat (- rc)) @ ''.'')"
      by (rule marker_free_append_last [OF _ _ _ p d]) (simp_all add: lower_char_def sq_def)
    then have "\<not> minification_failed
                 (''Command '' @ [sq] @ build_cmd sc bt @ [sq]
                    @ '' died with unknown signal '' @ show_nat (nat (- rc)) @ ''.'')"
      by (rule quoted_command_marker_free)
    with True None show ?thesis
      by (simp add: called_process_error_str_def)
  next
    case (Some r)
    then have r: "\<not> minification_failed r"
      using assms by blast
    have dot: "\<not> minification_failed ''.''"
      by (simp add: piece_marker_free)
    have p: "\<not> minification_failed '' died with ''"
      by (simp add: piece_marker_free)
    have rd: "\<not> minification_failed (r @ ''.'')"
      by (rule marker_free_append_hd [OF _ _ _ r dot]) (simp_all add: lower_char_def sq_def)
    have "\<not> minification_failed ('' died with '' @ r @ ''.'')"
      by (rule marker_free_append_last [OF _ _ _ p rd]) (simp_all add: lower_char_def sq_def)
    then have "\<not> minification_failed
                 (''Command '' @ [sq] @ build_cmd sc bt @ [sq] @ '' died with '' @ r @ ''.'')"
      by (rule quoted_command_marker_free)
    with True Some show ?thesis
      by (simp add: called_process_error_str_def)
  qed
qed

text \<open>
  Provided the platform's signal names hold neither marker, every call of \<^verbatim>\<open>build_apk\<close>
  returns, and it has spawned exactly one build command when it does: the debug fallback
  is not reachable, for either variant.
\<close>

lemma build_apk_single_attempt:
  assumes "\<forall>n r. py_signal_repr os n = Some r \<longrightarrow> \<not> minification_failed r"
  shows "\<exists>r. build_apk sc os bt s = Some r
             \<and> trace (snd r) = trace s @ [Spawn (build_cmd sc bt) True]"
proof (cases "run_command os (build_cmd sc bt) True True s")
  case (Pair a s1)
  have tr: "trace s1 = trace s @ [Spawn (build_cmd sc bt) True]"
    using run_command_state [of os "build_cmd sc bt" True True s] Pair by simp
  show ?thesis
  proof (cases a)
    case (Inl e)
    with Pair tr show ?thesis
      by (subst build_apk.simps) simp
  next
    case (Inr t)
    obtain success out err where t: "t = (success, out, err)"
      by (cases t) auto
    show ?thesis
    proof (cases success)
      case True
      with Pair Inr t tr show ?thesis
        by (subst build_apk.simps) (auto simp: print_defs split: sum.splits)
    next
      case False
      with Pair Inr t
      have "run_command os (build_cmd sc bt) True True s = (Inr (False, out, err), s1)"
        by simp
      then obtain rc where "err = called_process_error_str os (build_cmd sc bt) rc"
        using run_command_failure_text by blast
      then have "\<not> minification_failed err"
        using failure_text_marker_free [OF assms] by simp
      with Pair Inr t False tr show ?thesis
        by (subst build_apk.simps) (simp add: print_defs)
    qed
  qed
qed

lemma sim_table_marker_free:
  "\<forall>n r. py_signal_repr (sim_os respond) n = Some r \<longrightarrow> \<not> minification_failed r"
  by (simp add: sim_os_def piece_marker_free)

lemma r8_text_matches: "minification_failed ''ERROR: R8: Missing class''"
  by (simp add: minification_failed_def)

lemma sim_release_fails:
  assumes "respond (build_cmd sc ''release'')
             = Exited 1 ''Running Gradle task'' ''ERROR: R8: Missing class''"
  shows "build_apk sc (sim_os respond) ''release'' \<lparr>world = w, trace = [], console = []\<rparr> =
           Some (Inr (False, None),
                 \<lparr>world = w, trace = [Spawn (build_cmd sc ''release'') True],
                  console = [Error ''Build failed'']\<rparr>)"
proof -
  have run: "os_run (sim_os respond) (build_cmd sc ''release'') True
               (world \<lparr>world = w, trace = [], console = []\<rparr>)
               = (Exited 1 ''Running Gradle task'' ''ERROR: R8: Missing class'', w)"
    using assms by (simp add: sim_os_def)
  have one: "(1::int) \<noteq> 0"
    by simp
  note rc = run_command_check_nonzero [OF run one]
  show ?thesis
    by (subst build_apk.simps)
       (simp add: rc failure_text_marker_free [OF sim_table_marker_free] print_defs)
qed

text \<open>
  C1. A release build whose stderr matches the minification signature should be retried
  once as a debug build. On the machine below the release build exits 1 with
  \<^verbatim>\<open>ERROR: R8: Missing class\<close> on stderr, which matches, and the debug build would fail as
  well. \<^verbatim>\<open>build_apk\<close> returns \<^verbatim>\<open>(False, None)\<close> after the release command alone: there is
  no fallback attempt, in either script.
\<close>

theorem release_r8_failure_not_retried:
  "os_run (sim_os r8_debug_fails) (build_cmd Runner ''release'') True []
     = (Exited 1 ''Running Gradle task'' ''ERROR: R8: Missing class'', [])
   \<and> minification_failed ''ERROR: R8: Missing class''
   \<and> build_apk Runner (sim_os r8_debug_fails) ''release'' (start []) =
       Some (Inr (False, None),
             \<lparr>world = [], trace = [Spawn (build_cmd Runner ''release'') True],
              console = [Error ''Build failed'']\<rparr>)
   \<and> build_apk Builder (sim_os r8_debug_fails) ''release'' (start []) =
       Some (Inr (False, None),
             \<lparr>world = [], trace = [Spawn (build_cmd Builder ''release'') True],
              console = [Error ''Build failed'']\<rparr>)"
proof -
  have a: "r8_debug_fails (build_cmd sc ''release'')
             = Exited 1 ''Running Gradle task'' ''ERROR: R8: Missing class''" for sc
    by (cases sc) (simp_all add: r8_debug_fails_def)
  show ?thesis
    using sim_release_fails [where respond = r8_debug_fails and sc = Runner and w = "[]", OF a]
      sim_release_fails [where respond = r8_debug_fails and sc = Builder and w = "[]", OF a]
    by (simp add: start_def r8_text_matches sim_os_def a)
qed

text \<open>
  C10. A release build that fails in the minification step should end, when the debug
  build succeeds, in a success that carries \<^verbatim>\<open>app-debug.apk\<close>. On the machine below the
  release build exits 1 with \<^verbatim>\<open>ERROR: R8: Missing class\<close> on stderr, and a debug build
  succeeds with its artifact in place. \<^verbatim>\<open>build_apk("release")\<close> returns
  \<^verbatim>\<open>(False, None)\<close> and never starts the debug build.
\<close>

theorem release_r8_failure_yields_no_debug_artifact:
  "os_run (sim_os r8_debug_ok) (build_cmd Runner ''release'') True [apk_path_of ''debug'']
     = (Exited 1 ''Running Gradle task'' ''ERROR: R8: Missing class'', [apk_path_of ''debug''])
   \<and> minification_failed ''ERROR: R8: Missing class''
   \<and> build_apk Runner (sim_os r8_debug_ok) ''debug'' (start [apk_path_of ''debug'']) =
       Some (Inr (True, Some (apk_path_of ''debug'')),
             \<lparr>world = [apk_path_of ''debug''],
              trace = [Spawn (build_cmd Runner ''debug'') True],
              console = [Success ''APK built successfully!'',
                         Success (''Location: '' @ apk_path_of ''debug''),
                         Success ''Size: 20.0 MB'']\<rparr>)
   \<and> build_apk Runner (sim_os r8_debug_ok) ''release'' (start [apk_path_of ''debug'']) =
       Some (Inr (False, None),
             \<lparr>world = [apk_path_of ''debug''],
              trace = [Spawn (build_cmd Runner ''release'') True],
              console = [Error ''Build failed'']\<rparr>)"
proof -
  have a: "r8_debug_ok (build_cmd sc ''release'')
             = Exited 1 ''Running Gradle task'' ''ERROR: R8: Missing class''" for sc
    by (cases sc) (simp_all add: r8_debug_ok_def)
  have d: "r8_debug_ok (build_cmd Runner ''debug'') = Exited 0 [] []"
    by (simp add: r8_debug_ok_def build_cmd_def)
  have run: "os_run (sim_os r8_debug_ok) (build_cmd Runner ''debug'') True
               (world (start [apk_path_of ''debug'']))
               = (Exited 0 [] [], [apk_path_of ''debug''])"
    by (simp add: sim_os_def d start_def)
  have dbg: "build_apk Runner (sim_os r8_debug_ok) ''debug'' (start [apk_path_of ''debug'']) =
       Some (Inr (True, Some (apk_path_of ''debug'')),
             \<lparr>world = [apk_path_of ''debug''],
              trace = [Spawn (build_cmd Runner ''debug'') True],
              console = [Success ''APK built successfully!'',
                         Success (''Location: '' @ apk_path_of ''debug''),
                         Success ''Size: 20.0 MB'']\<rparr>)"
    by (simp add: build_apk_tool_ok [OF run])
       (simp add: sim_os_def start_def show_nat.simps digit_def)
  show ?thesis
    using sim_release_fails [where respond = r8_debug_ok and sc = Runner
        and w = "[apk_path_of ''debug'']", OF a] dbg
    by (simp add: start_def r8_text_matches sim_os_def a)
qed

end
